theory Spec2Isabelle
  imports
    Complex_Main
    "HOL-Library.AList"
    "HOL-Library.Char_ord"
    "HOL-Library.List_Lexorder"
    "HOL-Library.Product_Lexorder"
begin

chapter \<open>simple-log-analyzer: vendor line parsers and the aggregation engine\<close>

text \<open>
  A shallow embedding of \<^verbatim>\<open>log_analyzer/parsers/*.py\<close> and of the three
  \<^verbatim>\<open>collect_*\<close> functions of \<^verbatim>\<open>log_analyzer/cli.py\<close>.

  Python \<^verbatim>\<open>str\<close> values are modelled as \<^typ>\<open>string\<close>; a \<^typ>\<open>char\<close> stands
  for the code point of the same number, so the model covers text whose code points are
  below 256. The character classes below are the ones Python uses on that range.
\<close>

section \<open>Python strings\<close>

definition NL :: char where
  "NL = CHR 0x0A"

text \<open>\<^verbatim>\<open>str.isspace\<close>, which is also \<^verbatim>\<open>\s\<close> of \<^verbatim>\<open>re\<close> on \<^verbatim>\<open>str\<close> patterns.\<close>

definition is_space :: "char \<Rightarrow> bool" where
  "is_space c = (let n = (of_char c :: nat) in
     (9 \<le> n \<and> n \<le> 13) \<or> (28 \<le> n \<and> n \<le> 32) \<or> n = 133 \<or> n = 160)"

text \<open>\<^verbatim>\<open>\d\<close>: the decimal digits.\<close>

definition is_digit :: "char \<Rightarrow> bool" where
  "is_digit c = (let n = (of_char c :: nat) in 48 \<le> n \<and> n \<le> 57)"

text \<open>\<^verbatim>\<open>\w\<close>: alphanumeric characters and the underscore.\<close>

definition is_word :: "char \<Rightarrow> bool" where
  "is_word c = (let n = (of_char c :: nat) in
     (48 \<le> n \<and> n \<le> 57) \<or> (65 \<le> n \<and> n \<le> 90) \<or> n = 95 \<or> (97 \<le> n \<and> n \<le> 122) \<or>
     n = 170 \<or> n = 178 \<or> n = 179 \<or> n = 181 \<or> n = 185 \<or> n = 186 \<or>
     (188 \<le> n \<and> n \<le> 190) \<or> (192 \<le> n \<and> n \<le> 214) \<or> (216 \<le> n \<and> n \<le> 246) \<or>
     (248 \<le> n \<and> n \<le> 255))"

text \<open>\<^verbatim>\<open>s.rstrip("\n")\<close> removes every trailing newline.\<close>

definition rstrip_nl :: "string \<Rightarrow> string" where
  "rstrip_nl s = rev (dropWhile (\<lambda>c. c = NL) (rev s))"

definition lstrip :: "string \<Rightarrow> string" where
  "lstrip s = dropWhile is_space s"

definition strip :: "string \<Rightarrow> string" where
  "strip s = rev (dropWhile is_space (rev (dropWhile is_space s)))"

definition startswith :: "string \<Rightarrow> string \<Rightarrow> bool" where
  "startswith s pre = (take (length pre) s = pre)"

definition startswith_any :: "string \<Rightarrow> string list \<Rightarrow> bool" where
  "startswith_any s pres = list_ex (startswith s) pres"

text \<open>\<^verbatim>\<open>sub in s\<close>\<close>

fun contains :: "string \<Rightarrow> string \<Rightarrow> bool" where
  "contains sub [] = (sub = [])"
| "contains sub (c # cs) = (take (length sub) (c # cs) = sub \<or> contains sub cs)"

definition contains_any :: "string list \<Rightarrow> string \<Rightarrow> bool" where
  "contains_any subs s = list_ex (\<lambda>sub. contains sub s) subs"

definition lower_char :: "char \<Rightarrow> char" where
  "lower_char c = (let n = (of_char c :: nat) in
     if (65 \<le> n \<and> n \<le> 90) \<or> (192 \<le> n \<and> n \<le> 214) \<or> (216 \<le> n \<and> n \<le> 222)
     then char_of (n + 32) else c)"

definition lower :: "string \<Rightarrow> string" where
  "lower s = map lower_char s"

datatype py_error = ValueError | AttributeError | OverflowError

text \<open>
  \<^verbatim>\<open>int(s)\<close> on a string: surrounding whitespace is dropped (the separators 28 to 31
  are not whitespace for \<^verbatim>\<open>int\<close>), one sign is allowed, and the digits may be
  separated by single underscores. Anything else raises \<^verbatim>\<open>ValueError\<close>. (The limit
  on the number of digits of recent interpreters is left out; it raises
  \<^verbatim>\<open>ValueError\<close> as well.)
\<close>

definition is_int_space :: "char \<Rightarrow> bool" where
  "is_int_space c = (let n = (of_char c :: nat) in
     (9 \<le> n \<and> n \<le> 13) \<or> n = 32 \<or> n = 133 \<or> n = 160)"

fun int_literal :: "string \<Rightarrow> bool" where
  "int_literal [] = False"
| "int_literal [c] = is_digit c"
| "int_literal (c # d # cs) =
     (is_digit c \<and> (if d = CHR ''_'' then int_literal cs else int_literal (d # cs)))"

definition digits_value :: "string \<Rightarrow> int" where
  "digits_value s =
     foldl (\<lambda>a c. 10 * a + (of_char c - 48)) 0 (filter (\<lambda>c. c \<noteq> CHR ''_'') s)"

definition py_int :: "string \<Rightarrow> py_error + int" where
  "py_int s =
     (let t = rev (dropWhile is_int_space (rev (dropWhile is_int_space s)));
          neg = startswith t ''-'';
          body = (if startswith t ''-'' \<or> startswith t ''+'' then tl t else t)
      in if int_literal body
         then Inr (if neg then - digits_value body else digits_value body)
         else Inl ValueError)"

text \<open>\<^verbatim>\<open>str(n)\<close> for an integer.\<close>

fun str_nat :: "nat \<Rightarrow> string" where
  "str_nat n = (if n < 10 then [char_of (48 + n)]
                else str_nat (n div 10) @ [char_of (48 + n mod 10)])"

definition str_int :: "int \<Rightarrow> string" where
  "str_int i = (if i < 0 then ''-'' @ str_nat (nat (- i)) else str_nat (nat i))"

text \<open>
  \<^verbatim>\<open>s.title()\<close>: a letter after a letter is lowered, any other letter is raised. The
  column names of the program are ASCII, and only the ASCII letters are cased here.
\<close>

definition is_ascii_letter :: "char \<Rightarrow> bool" where
  "is_ascii_letter c = (let n = (of_char c :: nat) in
     (65 \<le> n \<and> n \<le> 90) \<or> (97 \<le> n \<and> n \<le> 122))"

definition ascii_upper :: "char \<Rightarrow> char" where
  "ascii_upper c = (let n = (of_char c :: nat) in
     if 97 \<le> n \<and> n \<le> 122 then char_of (n - 32) else c)"

definition ascii_lower :: "char \<Rightarrow> char" where
  "ascii_lower c = (let n = (of_char c :: nat) in
     if 65 \<le> n \<and> n \<le> 90 then char_of (n + 32) else c)"

fun title_from :: "bool \<Rightarrow> string \<Rightarrow> string" where
  "title_from previous_is_cased [] = []"
| "title_from previous_is_cased (c # cs) =
     (if previous_is_cased then ascii_lower c else ascii_upper c)
       # title_from (is_ascii_letter c) cs"

definition title_case :: "string \<Rightarrow> string" where
  "title_case s = title_from False s"

definition replace_char :: "char \<Rightarrow> char \<Rightarrow> string \<Rightarrow> string" where
  "replace_char a b s = map (\<lambda>c. if c = a then b else c) s"

section \<open>Floating point\<close>

text \<open>
  A \<^verbatim>\<open>float\<close> is modelled by the rational number it stands for. \<open>rd\<close> rounds a
  rational to the nearest binary64 number, ties to even, which is what each arithmetic
  operation of the source does to its exact result. The model covers the finite numbers
  of the normal range: no infinity, no NaN, no subnormal number.
\<close>

fun bitlen :: "nat \<Rightarrow> nat" where
  "bitlen n = (if n = 0 then 0 else Suc (bitlen (n div 2)))"

definition pow2 :: "int \<Rightarrow> rat" where
  "pow2 e = (if e \<ge> 0 then 2 ^ nat e else 1 / 2 ^ nat (- e))"

text \<open>The exponent of a positive rational: the largest \<open>e\<close> with \<open>2\<^sup>e \<le> x\<close>.\<close>

definition ilog2 :: "rat \<Rightarrow> int" where
  "ilog2 x = (if 1 \<le> x then int (bitlen (nat \<lfloor>x\<rfloor>)) - 1
              else - int (bitlen (nat (\<lceil>1 / x\<rceil> - 1))))"

definition round_half_even :: "rat \<Rightarrow> int" where
  "round_half_even x =
     (let f = \<lfloor>x\<rfloor>; r = x - of_int f
      in if r < 1 / 2 then f else if r > 1 / 2 then f + 1 else if even f then f else f + 1)"

definition rd :: "rat \<Rightarrow> rat" where
  "rd x = (if x = 0 then 0
           else let e = ilog2 \<bar>x\<bar> - 52 in of_int (round_half_even (x / pow2 e)) * pow2 e)"

text \<open>\<^verbatim>\<open>float(n)\<close> for an integer.\<close>

definition to_float :: "int \<Rightarrow> rat" where
  "to_float n = rd (of_int n)"

text \<open>\<^verbatim>\<open>f"{amount:.1f}"\<close> for a number that is not negative.\<close>

definition format_1f :: "rat \<Rightarrow> string" where
  "format_1f amount =
     (let t = round_half_even (amount * 10)
      in str_int (t div 10) @ ''.'' @ str_int (t mod 10))"

section \<open>Regular expressions of the \<^verbatim>\<open>re\<close> module\<close>

text \<open>
  The patterns of the parsers use character classes with a counted or open repetition
  (greedy or lazy), literals, the two anchors, named groups, and an optional or a starred
  non-capturing group. \<^verbatim>\<open>re\<close> matches by backtracking and returns the first match in
  priority order; \<open>mt\<close> does the same, in continuation-passing style.
\<close>

datatype cclass =
    Word | Digit | Space | NonSpace | Dot
  | OneOf string | NoneOf string | DigitOr string

fun in_class :: "cclass \<Rightarrow> char \<Rightarrow> bool" where
  "in_class Word c = is_word c"
| "in_class Digit c = is_digit c"
| "in_class Space c = is_space c"
| "in_class NonSpace c = (\<not> is_space c)"
| "in_class Dot c = (c \<noteq> NL)"
| "in_class (OneOf cs) c = (c \<in> set cs)"
| "in_class (NoneOf cs) c = (c \<notin> set cs)"
| "in_class (DigitOr cs) c = (is_digit c \<or> c \<in> set cs)"

datatype regex =
    Rep cclass nat "nat option" bool
  | Lit string
  | Bol
  | Eol
  | Cat regex regex
  | Grp string regex
  | Opt regex
  | Star regex

text \<open>
  \<open>Rep c lo hi greedy\<close> is the class \<open>c\<close> repeated \<open>lo\<close> to \<open>hi\<close> times (\<open>None\<close>: no upper
  bound). A match state is the number of characters consumed so far, the rest of the
  subject, and the groups captured so far (the latest capture of a name first).
\<close>

type_synonym captures = "(string \<times> string) list"
type_synonym mstate = "nat \<times> string \<times> captures"

fun try_counts :: "nat list \<Rightarrow> (nat \<Rightarrow> 'a option) \<Rightarrow> 'a option" where
  "try_counts [] f = None"
| "try_counts (i # is) f = (case f i of Some r \<Rightarrow> Some r | None \<Rightarrow> try_counts is f)"

definition run_length :: "cclass \<Rightarrow> nat option \<Rightarrow> string \<Rightarrow> nat" where
  "run_length c hi s =
     (let l = length (takeWhile (in_class c) s)
      in case hi of None \<Rightarrow> l | Some h \<Rightarrow> min h l)"

text \<open>
  The second argument bounds the iterations of a starred group; every caller passes the
  length of the rest of the subject, and an iteration only continues when it has consumed
  a character, so the bound is never reached before the loop ends by itself.
\<close>

fun mt :: "regex \<Rightarrow> nat \<Rightarrow> (mstate \<Rightarrow> mstate option) \<Rightarrow> mstate \<Rightarrow> mstate option" where
  "mt (Rep c lo hi greedy) n k (p, s, caps) =
     (let l = run_length c hi s;
          counts = (if greedy then rev [lo ..< Suc l] else [lo ..< Suc l])
      in try_counts counts (\<lambda>i. k (p + i, drop i s, caps)))"
| "mt (Lit w) n k (p, s, caps) =
     (if take (length w) s = w then k (p + length w, drop (length w) s, caps) else None)"
| "mt Bol n k (p, s, caps) = (if p = 0 then k (p, s, caps) else None)"
| "mt Eol n k (p, s, caps) = (if s = [] \<or> s = [NL] then k (p, s, caps) else None)"
| "mt (Cat a b) n k (p, s, caps) =
     mt a (length s) (\<lambda>(p', s', caps'). mt b (length s') k (p', s', caps')) (p, s, caps)"
| "mt (Grp name r) n k (p, s, caps) =
     mt r (length s) (\<lambda>(p', s', caps'). k (p', s', (name, take (p' - p) s) # caps'))
       (p, s, caps)"
| "mt (Opt r) n k (p, s, caps) =
     (case mt r (length s) k (p, s, caps) of Some x \<Rightarrow> Some x | None \<Rightarrow> k (p, s, caps))"
| "mt (Star r) 0 k (p, s, caps) = k (p, s, caps)"
| "mt (Star r) (Suc n) k (p, s, caps) =
     (case mt r (length s)
             (\<lambda>(p', s', caps'). if length s' < length s then mt (Star r) n k (p', s', caps')
                                else None)
             (p, s, caps)
      of Some x \<Rightarrow> Some x | None \<Rightarrow> k (p, s, caps))"

fun cat :: "regex list \<Rightarrow> regex" where
  "cat [] = Lit []"
| "cat [r] = r"
| "cat (r # rs) = Cat r (cat rs)"

text \<open>\<^verbatim>\<open>pattern.match(s)\<close>: the match object is the final state.\<close>

definition re_match :: "regex \<Rightarrow> string \<Rightarrow> mstate option" where
  "re_match r s = mt r (length s) Some (0, s, [])"

text \<open>\<^verbatim>\<open>match[name]\<close>: \<open>None\<close> when the group took no part in the match.\<close>

definition group :: "captures \<Rightarrow> string \<Rightarrow> string option" where
  "group caps name = map_of caps name"

definition group_str :: "captures \<Rightarrow> string \<Rightarrow> string" where
  "group_str caps name = (case map_of caps name of Some v \<Rightarrow> v | None \<Rightarrow> [])"

text \<open>
  \<^verbatim>\<open>pattern.finditer(s)\<close>: the matches from left to right, each search starting where
  the previous match ended. The second argument is the position in the subject, the third
  the number of characters still covered by the previous match.
\<close>

fun finditer :: "regex \<Rightarrow> nat \<Rightarrow> nat \<Rightarrow> string \<Rightarrow> captures list" where
  "finditer r pos skip [] =
     (case mt r 0 Some (pos, [], []) of None \<Rightarrow> [] | Some (p', s', caps) \<Rightarrow> [caps])"
| "finditer r pos (Suc skip) (c # cs) = finditer r (Suc pos) skip cs"
| "finditer r pos 0 (c # cs) =
     (case mt r (Suc (length cs)) Some (pos, c # cs, []) of
        None \<Rightarrow> finditer r (Suc pos) 0 cs
      | Some (p', s', caps) \<Rightarrow> caps # finditer r (Suc pos) (p' - pos - 1) cs)"

section \<open>ParseStats\<close>

text \<open>The dictionary \<^verbatim>\<open>rejected\<close> keeps its keys in the order of insertion.\<close>

record ParseStats =
  total_lines :: int
  parsed :: int
  rejected :: "(string \<times> int) list"

definition new_ParseStats :: ParseStats where
  "new_ParseStats = \<lparr>total_lines = 0, parsed = 0, rejected = []\<rparr>"

definition note_success :: "ParseStats \<Rightarrow> ParseStats" where
  "note_success st = st\<lparr>total_lines := total_lines st + 1, parsed := parsed st + 1\<rparr>"

definition dict_get :: "(string \<times> int) list \<Rightarrow> string \<Rightarrow> int" where
  "dict_get d k = (case map_of d k of Some v \<Rightarrow> v | None \<Rightarrow> 0)"

definition note_failure :: "ParseStats \<Rightarrow> string \<Rightarrow> ParseStats" where
  "note_failure st reason =
     (let r0 = (if map_of (rejected st) reason = None
                then AList.update reason 0 (rejected st) else rejected st);
          r1 = AList.update reason (dict_get r0 reason + 1) r0
      in st\<lparr>total_lines := total_lines st + 1, rejected := r1\<rparr>)"

definition sum_rejected :: "ParseStats \<Rightarrow> int" where
  "sum_rejected st = sum_list (map snd (rejected st))"

definition stats_inv :: "ParseStats \<Rightarrow> bool" where
  "stats_inv st = (total_lines st = parsed st + sum_rejected st)"

section \<open>The lines of a file\<close>

text \<open>
  Every parser opens its file with \<^verbatim>\<open>path.open("r", encoding="utf-8", errors="ignore")\<close>
  and iterates over the handle. The file is in text mode with universal newlines: in the
  decoded text a carriage return followed by a newline, and a carriage return alone, are
  each turned into one newline. The iteration gives the lines one by one, each with the
  newline that ends it; the last line has none when the text does not end with a newline.
  The argument below is the decoded text.
\<close>

definition CR :: char where
  "CR = CHR 0x0D"

fun universal_newlines :: "string \<Rightarrow> string" where
  "universal_newlines [] = []"
| "universal_newlines [c] = [if c = CR then NL else c]"
| "universal_newlines (c # d # cs) =
     (if c = CR \<and> d = NL then NL # universal_newlines cs
      else if c = CR then NL # universal_newlines (d # cs)
      else c # universal_newlines (d # cs))"

text \<open>The lines of a text from the characters \<open>line\<close> already read of the current line.\<close>

fun lines_after :: "string \<Rightarrow> string \<Rightarrow> string list" where
  "lines_after line [] = (if line = [] then [] else [line])"
| "lines_after line (c # cs) =
     (if c = NL then (line @ [c]) # lines_after [] cs else lines_after (line @ [c]) cs)"

definition handle_lines :: "string \<Rightarrow> string list" where
  "handle_lines text = lines_after [] (universal_newlines text)"

section \<open>The parse loop\<close>

text \<open>
  Each of the four \<^verbatim>\<open>parse\<close> methods is the same loop around its own treatment of
  one line: call the progress callback with \<^verbatim>\<open>len(raw_line)\<close> when there is one,
  then either tally a rejection and go on, or tally a success and yield the record. The
  loop is written once here; the treatment of a line is a function to a rejection reason,
  a record, or the exception that ends the run.

  The callback is a function on a state of its own, which is all it can change. The
  result is the exception if one ended the run, the statistics, the records yielded and
  the state of the callback. The lines are the ones the handle gives, \<open>handle_lines\<close> of
  the text of the file.
\<close>

type_synonym log_record = "(string \<times> string option) list"

datatype outcome = Yielded log_record | Rejected string

type_synonym 'p run = "py_error option \<times> ParseStats \<times> log_record list \<times> 'p"

fun parse_loop ::
  "(string \<Rightarrow> py_error + outcome) \<Rightarrow> (nat \<Rightarrow> 'p \<Rightarrow> 'p) option \<Rightarrow> string list \<Rightarrow>
   ParseStats \<Rightarrow> log_record list \<Rightarrow> 'p \<Rightarrow> 'p run" where
  "parse_loop f advance_progress [] stats recs pr = (None, stats, recs, pr)"
| "parse_loop f advance_progress (raw_line # lines) stats recs pr =
     (let pr' = (case advance_progress of None \<Rightarrow> pr | Some g \<Rightarrow> g (length raw_line) pr)
      in case f raw_line of
           Inl e \<Rightarrow> (Some e, stats, recs, pr')
         | Inr (Rejected reason) \<Rightarrow>
             parse_loop f advance_progress lines (note_failure stats reason) recs pr'
         | Inr (Yielded r) \<Rightarrow>
             parse_loop f advance_progress lines (note_success stats) (recs @ [r]) pr')"

section \<open>The vendor grammars\<close>

text \<open>The four formats begin with the same syslog header: month, day and time.\<close>

definition SPACES :: regex where
  "SPACES = Rep Space 1 None True"

definition TIME_OF_DAY :: regex where
  "TIME_OF_DAY = cat [Rep Digit 2 (Some 2) True, Lit '':'', Rep Digit 2 (Some 2) True,
                      Lit '':'', Rep Digit 2 (Some 2) True]"

definition DQUOTE :: char where
  "DQUOTE = CHR 0x22"

subsection \<open>Meraki\<close>

definition MERAKI_PATTERN :: regex where
  "MERAKI_PATTERN = cat [Bol,
     Grp ''month'' (Rep Word 3 (Some 3) True), SPACES,
     Grp ''day'' (Rep Digit 1 (Some 2) True), SPACES,
     Grp ''time'' TIME_OF_DAY, SPACES,
     Grp ''host'' (Rep NonSpace 1 None True), SPACES,
     Grp ''priority'' (Rep Digit 1 None True), SPACES,
     Grp ''timestamp'' (Rep (DigitOr ''.'') 1 None True), SPACES,
     Grp ''device_type'' (Rep NonSpace 1 None True), SPACES,
     Grp ''event_type'' (Rep NonSpace 1 None True), SPACES,
     Grp ''message'' (Rep Dot 0 None True), Eol]"

text \<open>\<^verbatim>\<open>(\w+)[:=]([^\s]+)\<close>\<close>

definition KV_PATTERN :: regex where
  "KV_PATTERN = cat [Grp ''1'' (Rep Word 1 None True), Rep (OneOf '':='') 1 (Some 1) True,
                     Grp ''2'' (Rep NonSpace 1 None True)]"

definition parse_key_value_pairs :: "string \<Rightarrow> (string \<times> string) list" where
  "parse_key_value_pairs text =
     fold (\<lambda>m pairs. AList.update (group_str m ''1'') (group_str m ''2'') pairs)
          (finditer KV_PATTERN 0 0 text) []"

definition meraki_infer_log_level :: "string \<Rightarrow> string \<Rightarrow> string" where
  "meraki_infer_log_level event_type message =
     (if event_type = ''firewall'' then
        (if contains ''deny'' (lower message) \<or> contains ''block'' (lower message)
         then ''warning'' else ''info'')
      else if event_type = ''events'' then
        (if contains ''error'' (lower message) \<or> contains ''fail'' (lower message)
         then ''error'' else ''info'')
      else if event_type \<in> set [''ip_flow_start'', ''ip_flow_end''] then ''info''
      else if event_type = ''urls'' then ''info''
      else ''info'')"

definition categorize_event :: "string \<Rightarrow> string \<Rightarrow> string" where
  "categorize_event event_type message =
     (if event_type \<in> set [''ip_flow_start'', ''ip_flow_end''] then ''network-flow''
      else if event_type = ''urls'' then ''web-security''
      else if event_type = ''firewall'' then ''firewall''
      else if event_type = ''events'' then
        (if contains ''dhcp'' (lower message) then ''dhcp'' else ''system-events'')
      else ''other'')"

definition MerakiParser_line :: "string \<Rightarrow> py_error + outcome" where
  "MerakiParser_line raw_line =
     (let line = rstrip_nl raw_line in
      if line = [] then Inr (Rejected ''empty'')
      else case re_match MERAKI_PATTERN line of
        None \<Rightarrow> Inr (Rejected ''format-mismatch'')
      | Some (p, rest, m) \<Rightarrow>
          (let event_type = group_str m ''event_type'';
               message = group_str m ''message'';
               kv_pairs = parse_key_value_pairs message
           in Inr (Yielded (
                [(''syslog_month'', group m ''month''),
                 (''syslog_day'', group m ''day''),
                 (''syslog_time'', group m ''time''),
                 (''host_ip'', group m ''host''),
                 (''priority'', group m ''priority''),
                 (''epoch_timestamp'', group m ''timestamp''),
                 (''device_type'', group m ''device_type''),
                 (''event_type'', Some event_type),
                 (''message'', Some message),
                 (''log_level'', Some (meraki_infer_log_level event_type message)),
                 (''category'', Some (categorize_event event_type message))]
                @ map (\<lambda>key. (key, map_of kv_pairs key))
                    [''src'', ''dst'', ''protocol'', ''sport'', ''dport'', ''mac'',
                     ''translated_src_ip'', ''translated_port'', ''pattern'']))))"

definition MerakiParser_parse ::
  "string list \<Rightarrow> ParseStats \<Rightarrow> (nat \<Rightarrow> 'p \<Rightarrow> 'p) option \<Rightarrow> 'p \<Rightarrow> 'p run" where
  "MerakiParser_parse file stats advance_progress pr =
     parse_loop MerakiParser_line advance_progress file stats [] pr"

subsection \<open>UniFi\<close>

definition SYSLOG_PATTERN :: regex where
  "SYSLOG_PATTERN = cat [Bol,
     Grp ''month'' (Rep Word 3 (Some 3) True), SPACES,
     Grp ''day'' (Rep Digit 1 (Some 2) True), SPACES,
     Grp ''time'' TIME_OF_DAY, SPACES,
     Grp ''host'' (Rep NonSpace 1 None True), SPACES,
     Grp ''hostname'' (Rep NonSpace 1 None False), Rep (OneOf '':'') 0 (Some 1) True, SPACES,
     Grp ''process'' (Rep (NoneOf ''[]:'') 1 None False),
     Star (cat [Lit ''['', Grp ''pid'' (Rep Digit 1 None True), Lit '']'']),
     Lit '':'', SPACES,
     Grp ''message'' (Rep Dot 0 None True), Eol]"

definition CEF_PATTERN :: regex where
  "CEF_PATTERN = cat [Bol,
     Grp ''month'' (Rep Word 3 (Some 3) True), SPACES,
     Grp ''day'' (Rep Digit 1 (Some 2) True), SPACES,
     Grp ''time'' TIME_OF_DAY, SPACES,
     Grp ''host'' (Rep NonSpace 1 None True), SPACES,
     Lit ''CEF:'', Grp ''cef_version'' (Rep Digit 1 None True), Lit ''|'',
     Grp ''vendor'' (Rep (NoneOf ''|'') 1 None True), Lit ''|'',
     Grp ''product'' (Rep (NoneOf ''|'') 1 None True), Lit ''|'',
     Grp ''product_version'' (Rep (NoneOf ''|'') 1 None True), Lit ''|'',
     Grp ''event_id'' (Rep (NoneOf ''|'') 1 None True), Lit ''|'',
     Grp ''event_name'' (Rep (NoneOf ''|'') 1 None True), Lit ''|'',
     Grp ''severity'' (Rep (NoneOf ''|'') 1 None True), Lit ''|'',
     Grp ''extensions'' (Rep Dot 0 None True), Eol]"

definition unifi_infer_log_level :: "string \<Rightarrow> string" where
  "unifi_infer_log_level message =
     (let message_lower = lower message in
      if contains_any [''error'', ''failed'', ''failure'', ''critical'', ''fatal''] message_lower
        then ''error''
      else if contains_any [''warn'', ''warning''] message_lower then ''warning''
      else if contains_any [''starting'', ''started'', ''stopping'', ''stopped'', ''finished'',
                            ''succeeded''] message_lower then ''info''
      else if contains ''debug'' message_lower then ''debug''
      else ''info'')"

definition unifi_categorize_process :: "string \<Rightarrow> string" where
  "unifi_categorize_process process =
     (let process_lower = lower process in
      if process_lower = ''unifi-security'' then ''unifi-security''
      else if contains ''systemd'' process_lower then ''system''
      else if contains_any [''kernel'', ''dmesg''] process_lower then ''kernel''
      else if contains_any [''mcad'', ''stamgr'', ''wevent'', ''ubios''] process_lower
        then ''unifi-controller''
      else if contains_any [''hostapd'', ''wpa''] process_lower then ''wifi''
      else if contains_any [''dhcp'', ''dns'', ''named''] process_lower then ''network-services''
      else if contains_any [''ssh'', ''sshd'', ''login''] process_lower then ''auth''
      else ''other'')"

text \<open>
  In the branch of the security events the record is a dictionary display whose entry
  \<^verbatim>\<open>"log_level"\<close> calls \<^verbatim>\<open>int(cef_match["severity"])\<close>; no handler is around it, so
  its \<^verbatim>\<open>ValueError\<close> leaves \<^verbatim>\<open>parse\<close>.
\<close>

definition UniFiParser_line :: "string \<Rightarrow> py_error + outcome" where
  "UniFiParser_line raw_line =
     (let line = rstrip_nl raw_line in
      if line = [] then Inr (Rejected ''empty'')
      else if startswith_any (lstrip line) [''{'', ''}'', [DQUOTE], '']'', ''[''] then
        Inr (Rejected ''json-data'')
      else case re_match CEF_PATTERN line of
        Some (p, rest, m) \<Rightarrow>
          (case py_int (group_str m ''severity'') of
             Inl e \<Rightarrow> Inl e
           | Inr severity \<Rightarrow>
               Inr (Yielded
                 [(''syslog_month'', group m ''month''),
                  (''syslog_day'', group m ''day''),
                  (''syslog_time'', group m ''time''),
                  (''host_ip'', group m ''host''),
                  (''hostname'', Some ''CEF''),
                  (''process'', Some ''unifi-security''),
                  (''pid'', None),
                  (''message'', Some (group_str m ''event_name'' @ '' (severity='' @
                                      group_str m ''severity'' @ '')'')),
                  (''log_level'', Some (if severity \<ge> 5 then ''warning'' else ''info'')),
                  (''category'', Some ''unifi-security'')]))
      | None \<Rightarrow>
          (case re_match SYSLOG_PATTERN line of
             None \<Rightarrow> Inr (Rejected ''format-mismatch'')
           | Some (p, rest, m) \<Rightarrow>
               (let message = group_str m ''message'';
                    process = group_str m ''process''
                in Inr (Yielded
                     [(''syslog_month'', group m ''month''),
                      (''syslog_day'', group m ''day''),
                      (''syslog_time'', group m ''time''),
                      (''host_ip'', group m ''host''),
                      (''hostname'', group m ''hostname''),
                      (''process'', Some process),
                      (''pid'', group m ''pid''),
                      (''message'', Some message),
                      (''log_level'', Some (unifi_infer_log_level message)),
                      (''category'', Some (unifi_categorize_process process))]))))"

definition UniFiParser_parse ::
  "string list \<Rightarrow> ParseStats \<Rightarrow> (nat \<Rightarrow> 'p \<Rightarrow> 'p) option \<Rightarrow> 'p \<Rightarrow> 'p run" where
  "UniFiParser_parse file stats advance_progress pr =
     parse_loop UniFiParser_line advance_progress file stats [] pr"

subsection \<open>WatchGuard\<close>

definition WATCHGUARD_PATTERN :: regex where
  "WATCHGUARD_PATTERN = cat [Bol,
     Grp ''month'' (Rep Word 3 (Some 3) True), SPACES,
     Grp ''day'' (Rep Digit 1 (Some 2) True), SPACES,
     Grp ''time'' TIME_OF_DAY, SPACES,
     Grp ''host'' (Rep NonSpace 1 None True), SPACES,
     Grp ''device_id'' (Rep NonSpace 1 None True), SPACES,
     Grp ''device_name'' (Rep NonSpace 1 None True), SPACES,
     Lit ''('', Grp ''timestamp'' (Rep (NoneOf '')'') 1 None True), Lit '')'', SPACES,
     Grp ''process'' (Rep (NoneOf ''[:'') 1 None False),
     Opt (cat [Lit ''['', Grp ''pid'' (Rep Digit 1 None True), Lit '']'']),
     Lit '':'', SPACES,
     Opt (cat [Lit (''msg_id='' @ [DQUOTE]), Grp ''msg_id'' (Rep (NoneOf [DQUOTE]) 1 None True),
               Lit [DQUOTE], SPACES]),
     Grp ''message'' (Rep Dot 0 None True), Eol]"

definition infer_log_level_from_msg_id :: "string option \<Rightarrow> string \<Rightarrow> string" where
  "infer_log_level_from_msg_id msg_id message =
     (let by_id =
        (case msg_id of
           None \<Rightarrow> None
         | Some i \<Rightarrow>
             if i = [] then None
             else if startswith_any i [''3001-'', ''0207-'', ''020B-''] then Some ''warning''
             else if startswith_any i [''4001-'', ''7600-''] then Some ''error''
             else None)
      in case by_id of
           Some level \<Rightarrow> level
         | None \<Rightarrow>
             (let message_lower = lower message in
              if contains_any [''error'', ''failed'', ''failure'', ''critical'', ''fatal'', ''down'']
                   message_lower then ''error''
              else if contains_any [''warning'', ''block'', ''deny'', ''reject'', ''unknown'']
                   message_lower then ''warning''
              else ''info''))"

definition watchguard_categorize_process :: "string \<Rightarrow> string" where
  "watchguard_categorize_process process =
     (let process_lower = lower (strip process) in
      if process_lower = ''firewall'' then ''firewall''
      else if process_lower \<in> set [''iked'', ''sslvpn''] then ''vpn''
      else if process_lower = ''dhcpd'' then ''network-services''
      else if process_lower = ''sessiond'' then ''session-management''
      else if process_lower \<in> set [''loggerd'', ''admd''] then ''system''
      else if process_lower = ''sigd'' then ''security''
      else if process_lower \<in> set [''portald'', ''gwcd''] then ''gateway''
      else if process_lower \<in> set [''certd'', ''link-mon''] then ''monitoring''
      else ''other'')"

definition WatchGuardParser_line :: "string \<Rightarrow> py_error + outcome" where
  "WatchGuardParser_line raw_line =
     (let line = rstrip_nl raw_line in
      if line = [] then Inr (Rejected ''empty'')
      else case re_match WATCHGUARD_PATTERN line of
        None \<Rightarrow> Inr (Rejected ''format-mismatch'')
      | Some (p, rest, m) \<Rightarrow>
          (let message = group_str m ''message'';
               process = group_str m ''process'';
               msg_id = group m ''msg_id''
           in Inr (Yielded
                [(''syslog_month'', group m ''month''),
                 (''syslog_day'', group m ''day''),
                 (''syslog_time'', group m ''time''),
                 (''host_ip'', group m ''host''),
                 (''device_id'', group m ''device_id''),
                 (''device_name'', group m ''device_name''),
                 (''iso_timestamp'', group m ''timestamp''),
                 (''process'', Some process),
                 (''pid'', group m ''pid''),
                 (''msg_id'', msg_id),
                 (''message'', Some message),
                 (''log_level'', Some (infer_log_level_from_msg_id msg_id message)),
                 (''category'', Some (watchguard_categorize_process process))])))"

definition WatchGuardParser_parse ::
  "string list \<Rightarrow> ParseStats \<Rightarrow> (nat \<Rightarrow> 'p \<Rightarrow> 'p) option \<Rightarrow> 'p \<Rightarrow> 'p run" where
  "WatchGuardParser_parse file stats advance_progress pr =
     parse_loop WatchGuardParser_line advance_progress file stats [] pr"

subsection \<open>Palo Alto Networks\<close>

definition SYSLOG_PREFIX :: regex where
  "SYSLOG_PREFIX = cat [Bol,
     Grp ''month'' (Rep Word 3 (Some 3) True), SPACES,
     Grp ''day'' (Rep Digit 1 (Some 2) True), SPACES,
     Grp ''time'' TIME_OF_DAY, SPACES,
     Grp ''host'' (Rep NonSpace 1 None True), SPACES]"

definition FIELD_ALIASES :: "(nat \<times> string) list" where
  "FIELD_ALIASES = [
     (0, ''future_use''), (1, ''receive_time''), (2, ''serial_number''),
     (3, ''log_type''), (4, ''log_subtype''), (5, ''config_version''),
     (6, ''generated_time''), (7, ''src_ip''), (8, ''dst_ip''),
     (9, ''nat_src_ip''), (10, ''nat_dst_ip''), (11, ''rule_name''),
     (12, ''src_user''), (13, ''dst_user''), (14, ''application''),
     (15, ''vsys''), (16, ''src_zone''), (17, ''dst_zone''),
     (18, ''inbound_interface''), (19, ''outbound_interface''), (20, ''log_action''),
     (21, ''logged_time''), (22, ''session_id''), (23, ''repeat_count''),
     (24, ''src_port''), (25, ''dst_port''), (26, ''nat_src_port''),
     (27, ''nat_dst_port''), (28, ''flags''), (29, ''protocol''),
     (30, ''action''), (31, ''bytes_total''), (32, ''bytes_sent''),
     (33, ''bytes_received''), (34, ''packets''), (35, ''session_start_time''),
     (36, ''elapsed_time''), (37, ''category''), (38, ''padding''),
     (39, ''seqno''), (40, ''action_flags''), (41, ''src_country''),
     (42, ''dst_country''), (44, ''packets_sent''), (45, ''packets_received''),
     (46, ''session_end_reason''), (47, ''device_group''), (52, ''device_name''),
     (53, ''policy_type''), (55, ''monitor_tag''), (56, ''parent_session_id''),
     (57, ''parent_start_time''), (60, ''http2_connection_id''), (65, ''rule_uuid''),
     (102, ''generated_timestamp''), (105, ''app_family''), (106, ''app_technology''),
     (107, ''app_risk_level''), (108, ''app_risk_score''), (109, ''app_characteristics''),
     (110, ''app_subcategory''), (111, ''app_identifier''), (112, ''app_tunneled''),
     (113, ''app_is_saas''), (114, ''app_risk_category''), (115, ''app_tunnel_category'')]"

definition normalise_field :: "string \<Rightarrow> string option" where
  "normalise_field v = (let v' = strip v in if v' = [] then None else Some v')"

text \<open>
  \<^verbatim>\<open>csv.reader\<close> belongs to the standard library, not to this program: it is a parameter
  here, a function from the text after the prefix to the list of fields or to the message
  of the \<^verbatim>\<open>csv.Error\<close> it raises, the one exception the parser handles.
\<close>

type_synonym csv_reader = "string \<Rightarrow> string + string list"

definition PaloAltoParser_line :: "csv_reader \<Rightarrow> string \<Rightarrow> py_error + outcome" where
  "PaloAltoParser_line csv raw_line =
     (let line = rstrip_nl raw_line in
      if line = [] then Inr (Rejected ''empty'')
      else case re_match SYSLOG_PREFIX line of
        None \<Rightarrow> Inr (Rejected ''missing-prefix'')
      | Some (p, rest, prefix) \<Rightarrow>
          (case csv rest of
             Inl exc \<Rightarrow> Inr (Rejected (''csv-error: '' @ exc))
           | Inr cells \<Rightarrow>
               Inr (Yielded (
                 [(''syslog_host'', group prefix ''host''),
                  (''syslog_month'', group prefix ''month''),
                  (''syslog_day'', group prefix ''day''),
                  (''syslog_time'', group prefix ''time'')]
                 @ map (\<lambda>(index, alias). (alias, normalise_field (cells ! index)))
                     (filter (\<lambda>(index, alias). index < length cells) FIELD_ALIASES)))))"

definition PaloAltoParser_parse ::
  "csv_reader \<Rightarrow> string list \<Rightarrow> ParseStats \<Rightarrow> (nat \<Rightarrow> 'p \<Rightarrow> 'p) option \<Rightarrow> 'p \<Rightarrow> 'p run" where
  "PaloAltoParser_parse csv file stats advance_progress pr =
     parse_loop (PaloAltoParser_line csv) advance_progress file stats [] pr"

section \<open>Frames\<close>

text \<open>
  A \<^verbatim>\<open>polars.DataFrame\<close> is a list of named columns of equal length. The loaders
  build string columns, integer columns and datetime columns; a cell is a value of one of
  these or null. A datetime is the integer polars stores for it. Rendering a datetime as
  text (\<^verbatim>\<open>str\<close>, \<^verbatim>\<open>strftime\<close>) is the business of the standard library and is a
  parameter wherever the source does it.
\<close>

datatype cell = CNull | CStr string | CInt int | CTime int

type_synonym frame = "(string \<times> cell list) list"

definition has_column :: "frame \<Rightarrow> string \<Rightarrow> bool" where
  "has_column frame column = (column \<in> set (map fst frame))"

definition get_column :: "frame \<Rightarrow> string \<Rightarrow> cell list" where
  "get_column frame column = (case map_of frame column of Some col \<Rightarrow> col | None \<Rightarrow> [])"

definition height :: "frame \<Rightarrow> nat" where
  "height frame = (case frame of [] \<Rightarrow> 0 | (name, col) # others \<Rightarrow> length col)"

text \<open>
  The order of \<^verbatim>\<open>sort\<close> on one column, ascending: null first, then the values in
  their own order (strings by code point).
\<close>

fun cell_key :: "cell \<Rightarrow> nat \<times> int \<times> string" where
  "cell_key CNull = (0, 0, [])"
| "cell_key (CInt i) = (1, i, [])"
| "cell_key (CTime t) = (2, t, [])"
| "cell_key (CStr s) = (3, 0, s)"

text \<open>
  \<^verbatim>\<open>group_by(column)\<close>: one group for each distinct value, null included. polars
  returns the groups in no particular order; the model lists them as \<open>remdups\<close> does.
  \<^verbatim>\<open>pl.len()\<close> counts the rows of a group, \<^verbatim>\<open>pl.col(c).sum()\<close> adds the integers
  of column \<open>c\<close> in the group and skips the nulls. The loader casts the bytes columns
  to \<^verbatim>\<open>Int64\<close>, and the addition of \<^verbatim>\<open>Int64\<close> wraps around: the sum is the exact
  sum brought into the range from \<open>-2^63\<close> to \<open>2^63 - 1\<close>.
\<close>

definition group_keys :: "cell list \<Rightarrow> cell list" where
  "group_keys col = remdups col"

definition group_len :: "cell list \<Rightarrow> cell \<Rightarrow> nat" where
  "group_len col k = length (filter (\<lambda>c. c = k) col)"

definition cell_int :: "cell \<Rightarrow> int" where
  "cell_int c = (case c of CInt i \<Rightarrow> i | _ \<Rightarrow> 0)"

definition wrap_int64 :: "int \<Rightarrow> int" where
  "wrap_int64 i = (i + 2 ^ 63) mod 2 ^ 64 - 2 ^ 63"

definition group_sum :: "cell list \<Rightarrow> cell list \<Rightarrow> cell \<Rightarrow> int" where
  "group_sum col vals k =
     wrap_int64 (sum_list (map (cell_int \<circ> snd) (filter (\<lambda>(c, v). c = k) (zip col vals))))"

text \<open>
  \<^verbatim>\<open>head(n)\<close> of a frame and the slice \<^verbatim>\<open>rows[:n]\<close> of a list: the first \<open>n\<close>
  elements, and all but the last \<open>-n\<close> when \<open>n\<close> is negative. \<^verbatim>\<open>head\<close> replaces a
  negative \<open>n\<close> by the number of rows to keep and hands the number to the library as an
  unsigned integer of 64 bits: a number from \<open>2^64\<close> on raises \<^verbatim>\<open>OverflowError\<close>. The
  slice of a list has no such limit.
\<close>

definition head :: "int \<Rightarrow> 'a list \<Rightarrow> py_error + 'a list" where
  "head n xs =
     (if n < 0 then Inr (take (length xs - nat (- n)) xs)
      else if n < 2 ^ 64 then Inr (take (nat n) xs)
      else Inl OverflowError)"

definition slice_to :: "int \<Rightarrow> 'a list \<Rightarrow> 'a list" where
  "slice_to n xs = (if 0 \<le> n then take (nat n) xs else take (length xs - nat (- n)) xs)"

section \<open>Sections of the report\<close>

datatype pyval = VNone | VStr string | VInt int | VFloat rat

type_synonym row = "(string \<times> pyval) list"

record report_section =
  title :: string
  columns :: "string list"
  rows :: "row list"

text \<open>
  The dash U+2014 lies outside the range of the model; it is written as the three bytes of
  its UTF-8 form.
\<close>

definition EM_DASH :: string where
  "EM_DASH = [CHR 0xE2, CHR 0x80, CHR 0x94]"

fun format_bytes_loop :: "rat \<Rightarrow> string list \<Rightarrow> string" where
  "format_bytes_loop amount [] = format_1f amount @ '' TB''"
| "format_bytes_loop amount [unit] = format_1f amount @ '' '' @ unit"
| "format_bytes_loop amount (unit # units) =
     (if amount < 1024 then format_1f amount @ '' '' @ unit
      else format_bytes_loop (rd (amount / 1024)) units)"

definition format_bytes :: "int option \<Rightarrow> string" where
  "format_bytes v =
     (case v of
        None \<Rightarrow> EM_DASH
      | Some n \<Rightarrow> if n < 0 then EM_DASH
                  else format_bytes_loop (to_float n) [''B'', ''KB'', ''MB'', ''GB'', ''TB''])"

text \<open>\<^verbatim>\<open>str(values[column] or "<missing>")\<close>\<close>

definition falsy :: "cell \<Rightarrow> bool" where
  "falsy c = (case c of CNull \<Rightarrow> True | CStr s \<Rightarrow> s = [] | CInt i \<Rightarrow> i = 0 | CTime t \<Rightarrow> False)"

definition str_cell :: "(int \<Rightarrow> string) \<Rightarrow> cell \<Rightarrow> string" where
  "str_cell str_datetime c =
     (case c of CNull \<Rightarrow> ''None'' | CStr s \<Rightarrow> s | CInt i \<Rightarrow> str_int i
              | CTime t \<Rightarrow> str_datetime t)"

definition key_text :: "(int \<Rightarrow> string) \<Rightarrow> cell \<Rightarrow> string" where
  "key_text str_datetime c = (if falsy c then ''<missing>'' else str_cell str_datetime c)"

definition column_heading :: "string \<Rightarrow> string" where
  "column_heading column = title_case (replace_char (CHR ''_'') (CHR '' '') column)"

section \<open>The aggregations\<close>

text \<open>The parameter \<^verbatim>\<open>top\<close> of the source is called \<open>limit\<close> here.\<close>

subsection \<open>collect\_top\_counts\<close>

record top_group =
  g_key :: cell
  g_events :: nat
  g_bytes :: "int option"

text \<open>
  The frame \<^verbatim>\<open>aggregation\<close> of the source, first as \<^verbatim>\<open>group_by\<close> and \<^verbatim>\<open>agg\<close>
  build it (\<open>top_groups\<close>), then after \<^verbatim>\<open>sort\<close> and \<^verbatim>\<open>head\<close>
  (\<open>top_aggregation\<close>). The column \<^verbatim>\<open>bytes\<close> exists when the frame has the bytes
  column.
\<close>

definition top_groups :: "frame \<Rightarrow> string \<Rightarrow> string \<Rightarrow> top_group list" where
  "top_groups frame column bytes_column =
     (let col = get_column frame column
      in map (\<lambda>k. \<lparr>g_key = k, g_events = group_len col k,
                    g_bytes = (if has_column frame bytes_column
                               then Some (group_sum col (get_column frame bytes_column) k)
                               else None)\<rparr>)
             (group_keys col))"

definition bytes_of :: "top_group \<Rightarrow> int" where
  "bytes_of g = (case g_bytes g of Some b \<Rightarrow> b | None \<Rightarrow> 0)"

text \<open>
  The keys of \<^verbatim>\<open>sort\<close>: \<^verbatim>\<open>events\<close> descending, \<^verbatim>\<open>bytes\<close> descending when
  the column is there, the grouping column ascending.
\<close>

definition events_bytes_key :: "top_group \<Rightarrow> int \<times> int \<times> nat \<times> int \<times> string" where
  "events_bytes_key g = (- int (g_events g), - bytes_of g, cell_key (g_key g))"

definition events_key :: "top_group \<Rightarrow> int \<times> nat \<times> int \<times> string" where
  "events_key g = (- int (g_events g), cell_key (g_key g))"

definition top_aggregation ::
  "frame \<Rightarrow> string \<Rightarrow> string \<Rightarrow> int \<Rightarrow> py_error + top_group list" where
  "top_aggregation frame column bytes_column limit =
     (let aggregation = top_groups frame column bytes_column;
          sorted_rows =
            (if has_column frame bytes_column
             then sort_key events_bytes_key aggregation
             else sort_key events_key aggregation)
      in head limit sorted_rows)"

definition top_row :: "(int \<Rightarrow> string) \<Rightarrow> string \<Rightarrow> top_group \<Rightarrow> row" where
  "top_row str_datetime column g =
     [(column, VStr (key_text str_datetime (g_key g))), (''events'', VInt (int (g_events g)))]
     @ (case g_bytes g of
          None \<Rightarrow> []
        | Some b \<Rightarrow> [(''bytes'', VInt b), (''bytes_formatted'', VStr (format_bytes (Some b)))])"

definition collect_top_counts ::
  "(int \<Rightarrow> string) \<Rightarrow> frame \<Rightarrow> string \<Rightarrow> string \<Rightarrow> int \<Rightarrow> string option \<Rightarrow>
   py_error + report_section option" where
  "collect_top_counts str_datetime frame column bytes_column limit title_arg =
     (if \<not> has_column frame column then Inr None
      else
        case top_aggregation frame column bytes_column limit of
          Inl e \<Rightarrow> Inl e
        | Inr aggregation \<Rightarrow>
            Inr (Some
              \<lparr>title = (case title_arg of
                          Some t \<Rightarrow> if t = [] then ''Top '' @ str_int limit @ '' by '' @ column
                                    else t
                        | None \<Rightarrow> ''Top '' @ str_int limit @ '' by '' @ column),
               columns = [column_heading column, ''Events'']
                         @ (if has_column frame bytes_column then [''Approx. Bytes''] else []),
               rows = map (top_row str_datetime column) aggregation\<rparr>))"

subsection \<open>collect\_trend\<close>

text \<open>
  The frame \<^verbatim>\<open>trend\<close> of the source: the buckets that are not null, each with the
  number of its rows, in ascending order.
\<close>

definition trend_of :: "frame \<Rightarrow> (cell \<times> nat) list" where
  "trend_of frame =
     (let col = filter (\<lambda>c. c \<noteq> CNull) (get_column frame ''minute_bucket'')
      in sort_key (cell_key \<circ> fst) (map (\<lambda>k. (k, group_len col k)) (group_keys col)))"

text \<open>
  A bucket that is no datetime has no \<^verbatim>\<open>strftime\<close>; the list of rows is built in
  full before it is cut, so one such bucket raises whatever the limit is.
\<close>

definition trend_row :: "(int \<Rightarrow> string) \<Rightarrow> cell \<times> nat \<Rightarrow> py_error + row" where
  "trend_row strftime r =
     (case fst r of
        CTime t \<Rightarrow> Inr [(''minute'', VStr (strftime t)), (''events'', VInt (int (snd r)))]
      | _ \<Rightarrow> Inl AttributeError)"

fun collect_rows :: "('a \<Rightarrow> py_error + row) \<Rightarrow> 'a list \<Rightarrow> py_error + row list" where
  "collect_rows f [] = Inr []"
| "collect_rows f (x # xs) =
     (case f x of
        Inl e \<Rightarrow> Inl e
      | Inr r \<Rightarrow> (case collect_rows f xs of Inl e \<Rightarrow> Inl e | Inr rs \<Rightarrow> Inr (r # rs)))"

definition collect_trend ::
  "(int \<Rightarrow> string) \<Rightarrow> frame \<Rightarrow> int \<Rightarrow> py_error + report_section option" where
  "collect_trend strftime frame limit =
     (if \<not> has_column frame ''minute_bucket'' then Inr None
      else
        (let trend = trend_of frame
         in if length trend = 0 then Inr None
            else case collect_rows (trend_row strftime) trend of
                   Inl e \<Rightarrow> Inl e
                 | Inr all_rows \<Rightarrow>
                     Inr (Some \<lparr>title = ''Volume per minute'',
                                columns = [''Minute'', ''Events''],
                                rows = slice_to limit all_rows\<rparr>)))"

subsection \<open>collect\_noise\_candidates\<close>

record noise_group =
  n_key :: cell
  n_events :: nat
  n_share :: rat

text \<open>\<^verbatim>\<open>pl.col("events") / total_events * 100.0\<close>, two operations on floats.\<close>

definition share_of :: "nat \<Rightarrow> nat \<Rightarrow> rat" where
  "share_of events total_events =
     rd (rd (to_float (int events) / to_float (int total_events)) * 100)"

text \<open>\<^verbatim>\<open>total_events * (threshold / 100.0)\<close>\<close>

definition cutoff_of :: "nat \<Rightarrow> rat \<Rightarrow> rat" where
  "cutoff_of total_events threshold = rd (to_float (int total_events) * rd (threshold / 100))"

text \<open>The frame \<^verbatim>\<open>aggregation\<close> of the source.\<close>

definition share_events_key :: "noise_group \<Rightarrow> rat \<times> int" where
  "share_events_key g = (- n_share g, - int (n_events g))"

definition noise_groups :: "frame \<Rightarrow> string \<Rightarrow> noise_group list" where
  "noise_groups frame column =
     (let col = get_column frame column
      in map (\<lambda>k. \<lparr>n_key = k, n_events = group_len col k,
                    n_share = share_of (group_len col k) (height frame)\<rparr>)
             (group_keys col))"

definition noise_aggregation :: "frame \<Rightarrow> string \<Rightarrow> rat \<Rightarrow> noise_group list" where
  "noise_aggregation frame column threshold =
     (let total_events = height frame;
          cutoff = cutoff_of total_events threshold
      in sort_key share_events_key
           (filter (\<lambda>g. to_float (int (n_events g)) \<ge> cutoff) (noise_groups frame column)))"

definition noise_row :: "(int \<Rightarrow> string) \<Rightarrow> string \<Rightarrow> noise_group \<Rightarrow> row" where
  "noise_row str_datetime column g =
     [(column, VStr (key_text str_datetime (n_key g))), (''events'', VInt (int (n_events g))),
      (''share'', VFloat (n_share g))]"

definition collect_noise_candidates ::
  "(int \<Rightarrow> string) \<Rightarrow> frame \<Rightarrow> string \<Rightarrow> rat \<Rightarrow> report_section option" where
  "collect_noise_candidates str_datetime frame column threshold =
     (if threshold \<le> 0 then None
      else if \<not> has_column frame column then None
      else if height frame = 0 then None
      else
        (let aggregation = noise_aggregation frame column threshold
         in if aggregation = [] then None
            else Some \<lparr>title = ''Noise candidates '' @ [CHR 0xB7] @ '' '' @ column_heading column,
                       columns = [column_heading column, ''Events'', ''Traffic Share''],
                       rows = map (noise_row str_datetime column) aggregation\<rparr>))"

section \<open>Notions used in the statements\<close>

definition run_error :: "'p run \<Rightarrow> py_error option" where
  "run_error r = fst r"

definition run_stats :: "'p run \<Rightarrow> ParseStats" where
  "run_stats r = fst (snd r)"

definition run_records :: "'p run \<Rightarrow> log_record list" where
  "run_records r = fst (snd (snd r))"

definition run_progress :: "'p run \<Rightarrow> 'p" where
  "run_progress r = snd (snd (snd r))"

text \<open>A reader that returns the whole text as one field, for the examples.\<close>

definition one_field :: csv_reader where
  "one_field s = Inr [s]"

text \<open>The line of the scenario of the Meraki parser, and the record it is to yield.\<close>

definition scenario_line :: string where
  "scenario_line = ''Nov  5 00:00:04 90.102.85.18 1 1762300804.143040390 ROUTER ip_flow_end src=10.10.0.102 dst=35.153.85.208 protocol=6''"

definition scenario_record :: log_record where
  "scenario_record =
     [(''syslog_month'', Some ''Nov''), (''syslog_day'', Some ''5''),
      (''syslog_time'', Some ''00:00:04''), (''host_ip'', Some ''90.102.85.18''),
      (''priority'', Some ''1''), (''epoch_timestamp'', Some ''1762300804.143040390''),
      (''device_type'', Some ''ROUTER''), (''event_type'', Some ''ip_flow_end''),
      (''message'', Some ''src=10.10.0.102 dst=35.153.85.208 protocol=6''),
      (''log_level'', Some ''info''), (''category'', Some ''network-flow''),
      (''src'', Some ''10.10.0.102''), (''dst'', Some ''35.153.85.208''),
      (''protocol'', Some ''6''), (''sport'', None), (''dport'', None), (''mac'', None),
      (''translated_src_ip'', None), (''translated_port'', None), (''pattern'', None)]"

text \<open>A security event of UniFi whose severity is a word.\<close>

definition cef_line :: string where
  "cef_line = ''Nov  5 00:00:04 host CEF:0|Ubiquiti|UniFi|1.0|100|Threat|High|src=1.2.3.4''"

text \<open>
  The text of a file of two lines that end in carriage return and newline: a line of two
  spaces and a tab, and a line with nothing in it. \<open>blank_line\<close> is the first line as the
  handle gives it.
\<close>

definition blank_text :: string where
  "blank_text = [CHR '' '', CHR '' '', CHR 0x09, CHR 0x0D, CHR 0x0A, CHR 0x0D, CHR 0x0A]"

definition blank_line :: string where
  "blank_line = [CHR '' '', CHR '' '', CHR 0x09, CHR 0x0A]"

text \<open>The text of a file whose only line is empty and ends in carriage return and newline.\<close>

definition crlf_text :: string where
  "crlf_text = [CHR 0x0D, CHR 0x0A]"

text \<open>
  The byte length of a line in the file, as the specification words it: the file is read
  as UTF-8, where a code point below 128 takes one byte and the others of the range of the
  model take two.
\<close>

definition utf8_length :: "string \<Rightarrow> nat" where
  "utf8_length s = sum_list (map (\<lambda>c. if (of_char c :: nat) < 128 then 1 else 2) s)"

text \<open>A progress callback that keeps the amounts it is called with, in order.\<close>

definition record_amount :: "nat \<Rightarrow> nat list \<Rightarrow> nat list" where
  "record_amount n seen = seen @ [n]"

text \<open>The word \<^verbatim>\<open>caf\<close> followed by an e with acute accent (code point 233), and a newline.\<close>

definition accent_line :: string where
  "accent_line = [CHR ''c'', CHR ''a'', CHR ''f'', CHR 0xE9, CHR 0x0A]"


definition trend_rows :: "py_error + report_section option \<Rightarrow> row list" where
  "trend_rows r = (case r of Inr (Some sec) \<Rightarrow> rows sec | _ \<Rightarrow> [])"

definition top_rows :: "py_error + report_section option \<Rightarrow> row list" where
  "top_rows r = (case r of Inr (Some sec) \<Rightarrow> rows sec | _ \<Rightarrow> [])"

text \<open>
  The order of the rows of \<^verbatim>\<open>collect_top_counts\<close> as the specification words it: more
  events first, then the larger sum of bytes, then the smaller key.
\<close>

definition top_before :: "top_group \<Rightarrow> top_group \<Rightarrow> bool" where
  "top_before g h =
     (g_events g > g_events h \<or>
      (g_events g = g_events h \<and>
        (bytes_of g > bytes_of h \<or>
         (bytes_of g = bytes_of h \<and> cell_key (g_key g) < cell_key (g_key h)))))"

text \<open>All groups in the order of \<^verbatim>\<open>sort\<close>, before \<^verbatim>\<open>head\<close> cuts them.\<close>

definition top_sorted_groups :: "frame \<Rightarrow> string \<Rightarrow> string \<Rightarrow> top_group list" where
  "top_sorted_groups frame column bc =
     (if has_column frame bc then sort_key events_bytes_key (top_groups frame column bc)
      else sort_key events_key (top_groups frame column bc))"

text \<open>Frames for the examples; none of them has a datetime in a grouping column.\<close>

definition no_datetime :: "int \<Rightarrow> string" where
  "no_datetime t = []"

definition scenario_frame :: frame where
  "scenario_frame =
     [(''action'', replicate 40 (CStr ''reset'') @ replicate 100 (CStr ''allow'') @
                   replicate 40 (CStr ''deny''))]"

definition empty_frame :: frame where
  "empty_frame = [(''action'', [])]"

text \<open>Two rows of one action whose bytes add up to \<open>2^63\<close>.\<close>

definition large_frame :: frame where
  "large_frame =
     [(''action'', [CStr ''allow'', CStr ''allow'']),
      (''bytes_total'', [CInt 9223372036854775807, CInt 1])]"

definition null_frame :: frame where
  "null_frame = [(''user'', [CNull, CStr [], CStr ''bob'', CNull, CStr ''bob'', CNull])]"

text \<open>A column of datetimes, as \<^verbatim>\<open>dt.truncate\<close> builds \<^verbatim>\<open>minute_bucket\<close>.\<close>

definition datetime_column :: "cell list \<Rightarrow> bool" where
  "datetime_column col = list_all (\<lambda>c. case c of CTime t \<Rightarrow> True | CNull \<Rightarrow> True | _ \<Rightarrow> False) col"

definition bucket_time :: "cell \<Rightarrow> int" where
  "bucket_time c = (case c of CTime t \<Rightarrow> t | _ \<Rightarrow> 0)"

text \<open>The row of a bucket that is a datetime.\<close>

definition trend_line :: "(int \<Rightarrow> string) \<Rightarrow> cell \<times> nat \<Rightarrow> row" where
  "trend_line strftime r =
     [(''minute'', VStr (strftime (bucket_time (fst r)))), (''events'', VInt (int (snd r)))]"

definition trend_frame :: frame where
  "trend_frame = [(''minute_bucket'', [CTime 300, CNull, CTime 120, CTime 300, CTime 420])]"

text \<open>A frame whose buckets are all null.\<close>

definition null_bucket_frame :: frame where
  "null_bucket_frame = [(''minute_bucket'', [CNull, CNull])]"

text \<open>For the examples, a datetime is printed as its number.\<close>

definition minute_text :: "int \<Rightarrow> string" where
  "minute_text t = str_int t"





definition null_section :: report_section where
  "null_section =
     \<lparr>title = ''Top 5 by user'', columns = [''User'', ''Events''],
      rows = [[(''user'', VStr ''<missing>''), (''events'', VInt 3)],
              [(''user'', VStr ''bob''), (''events'', VInt 2)],
              [(''user'', VStr ''<missing>''), (''events'', VInt 1)]]\<rparr>"

definition null_noise_section :: report_section where
  "null_noise_section =
     \<lparr>title = ''Noise candidates '' @ [CHR 0xB7] @ '' User'',
      columns = [''User'', ''Events'', ''Traffic Share''],
      rows = [[(''user'', VStr ''<missing>''), (''events'', VInt 3), (''share'', VFloat 50)]]\<rparr>"

chapter \<open>Properties\<close>

section \<open>ParseStats\<close>

lemma sum_list_update:
  "sum_list (map snd (AList.update k v xs)) = sum_list (map snd xs) - dict_get xs k + v"
  by (induction xs) (auto simp: dict_get_def)

lemma dict_get_update: "dict_get (AList.update k v xs) k = v"
  by (induction xs) (auto simp: dict_get_def)

lemma dict_get_absent: "map_of xs k = None \<Longrightarrow> dict_get xs k = 0"
  by (simp add: dict_get_def)

lemma sum_rejected_note_failure: "sum_rejected (note_failure st reason) = sum_rejected st + 1"
  by (simp add: sum_rejected_def note_failure_def Let_def sum_list_update dict_get_update
      dict_get_absent)

lemma sum_rejected_note_success: "sum_rejected (note_success st) = sum_rejected st"
  by (simp add: sum_rejected_def note_success_def)

lemma stats_inv_new: "stats_inv new_ParseStats"
  by (simp add: stats_inv_def new_ParseStats_def sum_rejected_def)

lemma stats_inv_success: "stats_inv st \<Longrightarrow> stats_inv (note_success st)"
  unfolding stats_inv_def sum_rejected_note_success by (simp add: note_success_def)

lemma stats_inv_failure: "stats_inv st \<Longrightarrow> stats_inv (note_failure st reason)"
  unfolding stats_inv_def sum_rejected_note_failure by (simp add: note_failure_def Let_def)

lemma parse_loop_inv:
  "stats_inv st \<Longrightarrow> stats_inv (run_stats (parse_loop f cb ls st recs pr))"
proof (induction ls arbitrary: st recs pr)
  case Nil
  then show ?case by (simp add: run_stats_def)
next
  case (Cons raw_line ls)
  show ?case
  proof (cases "f raw_line")
    case (Inl e)
    with Cons.prems show ?thesis by (simp add: run_stats_def Let_def)
  next
    case (Inr out)
    show ?thesis
    proof (cases out)
      case (Yielded r)
      with Inr Cons.IH [OF stats_inv_success [OF Cons.prems]] show ?thesis
        by (simp add: Let_def)
    next
      case (Rejected reason)
      with Inr Cons.IH [OF stats_inv_failure [OF Cons.prems]] show ?thesis
        by (simp add: Let_def)
    qed
  qed
qed

text \<open>
  C1. The counters of a parse run always satisfy
  \<open>total_lines = parsed + sum of the counts in rejected\<close>: fresh statistics satisfy it,
  \<open>note_success\<close> and \<open>note_failure\<close> preserve it, and so does a run of each of the four
  parsers over any list of lines, with or without a progress callback, also a run that an
  exception ends. Every prefix of a file is a file, so the equation holds at every point of
  a run.
\<close>

theorem parse_stats_invariant:
  "stats_inv new_ParseStats \<and>
   (stats_inv st \<longrightarrow> stats_inv (note_success st)) \<and>
   (stats_inv st \<longrightarrow> stats_inv (note_failure st reason)) \<and>
   (stats_inv st \<longrightarrow>
      stats_inv (run_stats (MerakiParser_parse ls st cb pr)) \<and>
      stats_inv (run_stats (UniFiParser_parse ls st cb pr)) \<and>
      stats_inv (run_stats (WatchGuardParser_parse ls st cb pr)) \<and>
      stats_inv (run_stats (PaloAltoParser_parse csv ls st cb pr)))"
  by (simp add: stats_inv_new stats_inv_success stats_inv_failure parse_loop_inv
      MerakiParser_parse_def UniFiParser_parse_def WatchGuardParser_parse_def
      PaloAltoParser_parse_def)

theorem parse_stats_invariant_witness:
  "stats_inv new_ParseStats \<and>
   stats_inv (note_success new_ParseStats) \<and>
   stats_inv (note_failure new_ParseStats ''empty'') \<and>
   stats_inv (run_stats (MerakiParser_parse [[NL]] new_ParseStats None ())) \<and>
   stats_inv (run_stats (UniFiParser_parse [[NL]] new_ParseStats None ())) \<and>
   stats_inv (run_stats (WatchGuardParser_parse [[NL]] new_ParseStats None ())) \<and>
   stats_inv (run_stats (PaloAltoParser_parse one_field [[NL]] new_ParseStats None ()))"
  using parse_stats_invariant [of new_ParseStats "''empty''" "[[NL]]" None "()" one_field]
  by (simp add: stats_inv_new)

section \<open>The four parsers\<close>

lemma space_not_word: "is_space c \<Longrightarrow> \<not> is_word c"
  by (auto simp: is_space_def is_word_def Let_def)

lemma header_needs_word:
  "\<not> is_word c \<Longrightarrow>
   mt (Cat Bol (Cat (Grp nm (Rep Word 3 (Some 3) True)) r)) n k (0, c # cs, caps) = None"
  by (simp add: run_length_def)

lemma meraki_no_match: "\<not> is_word c \<Longrightarrow> re_match MERAKI_PATTERN (c # cs) = None"
  by (simp add: re_match_def MERAKI_PATTERN_def header_needs_word del: mt.simps)

lemma watchguard_no_match: "\<not> is_word c \<Longrightarrow> re_match WATCHGUARD_PATTERN (c # cs) = None"
  by (simp add: re_match_def WATCHGUARD_PATTERN_def header_needs_word del: mt.simps)

lemma syslog_no_match: "\<not> is_word c \<Longrightarrow> re_match SYSLOG_PATTERN (c # cs) = None"
  by (simp add: re_match_def SYSLOG_PATTERN_def header_needs_word del: mt.simps)

lemma cef_no_match: "\<not> is_word c \<Longrightarrow> re_match CEF_PATTERN (c # cs) = None"
  by (simp add: re_match_def CEF_PATTERN_def header_needs_word del: mt.simps)

lemma prefix_no_match: "\<not> is_word c \<Longrightarrow> re_match SYSLOG_PREFIX (c # cs) = None"
  by (simp add: re_match_def SYSLOG_PREFIX_def header_needs_word del: mt.simps)

lemma lstrip_spaces: "list_all is_space s \<Longrightarrow> lstrip s = []"
  by (simp add: lstrip_def list_all_iff)

lemma meraki_blank:
  assumes "rstrip_nl raw \<noteq> []" "list_all is_space (rstrip_nl raw)"
  shows "MerakiParser_line raw = Inr (Rejected ''format-mismatch'')"
proof -
  from assms obtain c cs where l: "rstrip_nl raw = c # cs" and "is_space c"
    by (cases "rstrip_nl raw") auto
  then show ?thesis
    by (simp add: MerakiParser_line_def meraki_no_match space_not_word)
qed

lemma watchguard_blank:
  assumes "rstrip_nl raw \<noteq> []" "list_all is_space (rstrip_nl raw)"
  shows "WatchGuardParser_line raw = Inr (Rejected ''format-mismatch'')"
proof -
  from assms obtain c cs where l: "rstrip_nl raw = c # cs" and "is_space c"
    by (cases "rstrip_nl raw") auto
  then show ?thesis
    by (simp add: WatchGuardParser_line_def watchguard_no_match space_not_word)
qed

lemma palo_alto_blank:
  assumes "rstrip_nl raw \<noteq> []" "list_all is_space (rstrip_nl raw)"
  shows "PaloAltoParser_line csv raw = Inr (Rejected ''missing-prefix'')"
proof -
  from assms obtain c cs where l: "rstrip_nl raw = c # cs" and "is_space c"
    by (cases "rstrip_nl raw") auto
  then show ?thesis
    by (simp add: PaloAltoParser_line_def prefix_no_match space_not_word)
qed

lemma unifi_blank:
  assumes "rstrip_nl raw \<noteq> []" "list_all is_space (rstrip_nl raw)"
  shows "UniFiParser_line raw = Inr (Rejected ''format-mismatch'')"
proof -
  from assms obtain c cs where l: "rstrip_nl raw = c # cs" and "is_space c"
    by (cases "rstrip_nl raw") auto
  moreover have "lstrip (rstrip_nl raw) = []"
    using assms(2) by (rule lstrip_spaces)
  ultimately show ?thesis
    by (simp add: UniFiParser_line_def cef_no_match syslog_no_match space_not_word
        startswith_any_def startswith_def)
qed

lemma meraki_empty_iff:
  "(MerakiParser_line raw = Inr (Rejected ''empty'')) = (rstrip_nl raw = [])"
  by (auto simp: MerakiParser_line_def Let_def split: option.splits)

lemma watchguard_empty_iff:
  "(WatchGuardParser_line raw = Inr (Rejected ''empty'')) = (rstrip_nl raw = [])"
  by (auto simp: WatchGuardParser_line_def Let_def split: option.splits)

lemma unifi_empty_iff:
  "(UniFiParser_line raw = Inr (Rejected ''empty'')) = (rstrip_nl raw = [])"
  by (auto simp: UniFiParser_line_def Let_def split: option.splits sum.splits)

lemma palo_alto_empty_iff:
  "(PaloAltoParser_line csv raw = Inr (Rejected ''empty'')) = (rstrip_nl raw = [])"
  by (auto simp: PaloAltoParser_line_def Let_def split: option.splits sum.splits)

lemma parse_loop_rejected:
  "f raw = Inr (Rejected reason) \<Longrightarrow>
   run_records (parse_loop f cb [raw] st [] pr) = [] \<and>
   run_stats (parse_loop f cb [raw] st [] pr) = note_failure st reason"
  by (simp add: run_records_def run_stats_def Let_def)

lemma CR_not_NL: "CR \<noteq> NL" "NL \<noteq> CR"
  by (simp_all add: CR_def NL_def)

lemma universal_newlines_no_CR: "CR \<notin> set (universal_newlines s)"
  by (induction s rule: universal_newlines.induct) (auto simp: CR_not_NL)

lemma lines_after_chars:
  "l \<in> set (lines_after acc s) \<Longrightarrow> x \<in> set l \<Longrightarrow> x \<in> set acc \<or> x \<in> set s"
proof (induction s arbitrary: acc)
  case Nil
  then show ?case by (simp split: if_splits)
next
  case (Cons c cs)
  show ?case
  proof (cases "c = NL")
    case True
    with Cons.prems have "l = acc @ [c] \<or> l \<in> set (lines_after [] cs)" by simp
    then show ?thesis
    proof
      assume "l = acc @ [c]"
      with Cons.prems(2) show ?thesis by auto
    next
      assume "l \<in> set (lines_after [] cs)"
      from Cons.IH [OF this Cons.prems(2)] show ?thesis by simp
    qed
  next
    case False
    with Cons.prems have "l \<in> set (lines_after (acc @ [c]) cs)" by simp
    from Cons.IH [OF this Cons.prems(2)] show ?thesis by auto
  qed
qed

lemma lines_after_shape:
  "NL \<notin> set acc \<Longrightarrow> l \<in> set (lines_after acc s) \<Longrightarrow> l \<noteq> [] \<and> NL \<notin> set (butlast l)"
proof (induction s arbitrary: acc)
  case Nil
  then show ?case by (auto split: if_splits dest: in_set_butlastD)
next
  case (Cons c cs)
  show ?case
  proof (cases "c = NL")
    case True
    with Cons.prems have "l = acc @ [c] \<or> l \<in> set (lines_after [] cs)" by simp
    then show ?thesis
    proof
      assume "l = acc @ [c]"
      with Cons.prems(1) show ?thesis by simp
    next
      assume "l \<in> set (lines_after [] cs)"
      then show ?thesis by (intro Cons.IH [of "[]"]) simp_all
    qed
  next
    case False
    with Cons.prems have "l \<in> set (lines_after (acc @ [c]) cs)" by simp
    then show ?thesis using False Cons.prems(1) by (intro Cons.IH [of "acc @ [c]"]) simp_all
  qed
qed

lemma rstrip_nl_empty: "(rstrip_nl s = []) = (\<forall>c \<in> set s. c = NL)"
  by (simp add: rstrip_nl_def)

lemma handle_line_no_CR:
  assumes "raw \<in> set (handle_lines text)"
  shows "CR \<notin> set raw"
proof
  assume "CR \<in> set raw"
  moreover from assms have "raw \<in> set (lines_after [] (universal_newlines text))"
    by (simp add: handle_lines_def)
  ultimately have "CR \<in> set [] \<or> CR \<in> set (universal_newlines text)"
    by (rule lines_after_chars [rotated])
  then show False by (simp add: universal_newlines_no_CR)
qed

lemma handle_line_empty:
  assumes "raw \<in> set (handle_lines text)"
  shows "(rstrip_nl raw = []) = (raw = [NL])"
proof
  from assms have "raw \<in> set (lines_after [] (universal_newlines text))"
    by (simp add: handle_lines_def)
  then have "raw \<noteq> [] \<and> NL \<notin> set (butlast raw)"
    by (intro lines_after_shape [of "[]"]) simp_all
  then have shape: "raw \<noteq> []" "NL \<notin> set (butlast raw)" by simp_all
  assume "rstrip_nl raw = []"
  then have nl: "\<forall>c \<in> set raw. c = NL" by (simp add: rstrip_nl_empty)
  have "butlast raw = []"
  proof (cases "butlast raw")
    case (Cons c cs)
    then have c: "c \<in> set (butlast raw)" by simp
    then have "c \<in> set raw" by (rule in_set_butlastD)
    with nl have "c = NL" by simp
    with c shape(2) show ?thesis by simp
  qed simp
  moreover have "last raw = NL" using nl shape(1) by simp
  ultimately show "raw = [NL]" using shape(1) append_butlast_last_id [of raw] by simp
next
  assume "raw = [NL]"
  then show "rstrip_nl raw = []" by (simp add: rstrip_nl_def)
qed

text \<open>
  C9 (as amended). A parser reads its lines from a handle with universal newlines: no
  line it is given holds a carriage return, and a line is empty once its trailing newlines
  are removed exactly when it is a newline alone, which is what a line with nothing in it
  is, whether the file ends its lines with a newline or with carriage return and newline.
  In each of the four parsers the reason \<open>empty\<close> is tallied exactly when the line is
  empty once its trailing newlines are removed. A line that is not empty then and holds
  only whitespace (spaces, tabs) goes on to the grammar and is rejected as
  \<open>format-mismatch\<close>, as \<open>missing-prefix\<close> by the Palo Alto parser; a run over such a
  line alone yields no record and tallies that reason.
\<close>

theorem empty_reason:
  "(raw \<in> set (handle_lines text) \<longrightarrow>
      CR \<notin> set raw \<and> (rstrip_nl raw = []) = (raw = [NL])) \<and>
   (MerakiParser_line raw = Inr (Rejected ''empty'')) = (rstrip_nl raw = []) \<and>
   (UniFiParser_line raw = Inr (Rejected ''empty'')) = (rstrip_nl raw = []) \<and>
   (WatchGuardParser_line raw = Inr (Rejected ''empty'')) = (rstrip_nl raw = []) \<and>
   (PaloAltoParser_line csv raw = Inr (Rejected ''empty'')) = (rstrip_nl raw = []) \<and>
   (rstrip_nl raw \<noteq> [] \<and> list_all is_space (rstrip_nl raw) \<longrightarrow>
      MerakiParser_line raw = Inr (Rejected ''format-mismatch'') \<and>
      UniFiParser_line raw = Inr (Rejected ''format-mismatch'') \<and>
      WatchGuardParser_line raw = Inr (Rejected ''format-mismatch'') \<and>
      PaloAltoParser_line csv raw = Inr (Rejected ''missing-prefix'') \<and>
      run_records (MerakiParser_parse [raw] st cb pr) = [] \<and>
      run_records (UniFiParser_parse [raw] st cb pr) = [] \<and>
      run_records (WatchGuardParser_parse [raw] st cb pr) = [] \<and>
      run_records (PaloAltoParser_parse csv [raw] st cb pr) = [] \<and>
      run_stats (MerakiParser_parse [raw] st cb pr) = note_failure st ''format-mismatch'' \<and>
      run_stats (UniFiParser_parse [raw] st cb pr) = note_failure st ''format-mismatch'' \<and>
      run_stats (WatchGuardParser_parse [raw] st cb pr) = note_failure st ''format-mismatch'' \<and>
      run_stats (PaloAltoParser_parse csv [raw] st cb pr) = note_failure st ''missing-prefix'')"
proof -
  have hl: "raw \<in> set (handle_lines text) \<longrightarrow>
      CR \<notin> set raw \<and> (rstrip_nl raw = []) = (raw = [NL])"
    using handle_line_no_CR [of raw "text"] handle_line_empty [of raw "text"] by blast
  have "MerakiParser_line raw = Inr (Rejected ''format-mismatch'') \<and>
        UniFiParser_line raw = Inr (Rejected ''format-mismatch'') \<and>
        WatchGuardParser_line raw = Inr (Rejected ''format-mismatch'') \<and>
        PaloAltoParser_line csv raw = Inr (Rejected ''missing-prefix'')"
    if "rstrip_nl raw \<noteq> []" "list_all is_space (rstrip_nl raw)"
    using that by (simp add: meraki_blank unifi_blank watchguard_blank palo_alto_blank)
  then have "(MerakiParser_line raw = Inr (Rejected ''empty'')) = (rstrip_nl raw = []) \<and>
   (UniFiParser_line raw = Inr (Rejected ''empty'')) = (rstrip_nl raw = []) \<and>
   (WatchGuardParser_line raw = Inr (Rejected ''empty'')) = (rstrip_nl raw = []) \<and>
   (PaloAltoParser_line csv raw = Inr (Rejected ''empty'')) = (rstrip_nl raw = []) \<and>
   (rstrip_nl raw \<noteq> [] \<and> list_all is_space (rstrip_nl raw) \<longrightarrow>
      MerakiParser_line raw = Inr (Rejected ''format-mismatch'') \<and>
      UniFiParser_line raw = Inr (Rejected ''format-mismatch'') \<and>
      WatchGuardParser_line raw = Inr (Rejected ''format-mismatch'') \<and>
      PaloAltoParser_line csv raw = Inr (Rejected ''missing-prefix'') \<and>
      run_records (MerakiParser_parse [raw] st cb pr) = [] \<and>
      run_records (UniFiParser_parse [raw] st cb pr) = [] \<and>
      run_records (WatchGuardParser_parse [raw] st cb pr) = [] \<and>
      run_records (PaloAltoParser_parse csv [raw] st cb pr) = [] \<and>
      run_stats (MerakiParser_parse [raw] st cb pr) = note_failure st ''format-mismatch'' \<and>
      run_stats (UniFiParser_parse [raw] st cb pr) = note_failure st ''format-mismatch'' \<and>
      run_stats (WatchGuardParser_parse [raw] st cb pr) = note_failure st ''format-mismatch'' \<and>
      run_stats (PaloAltoParser_parse csv [raw] st cb pr) = note_failure st ''missing-prefix'')"
    by (simp add: meraki_empty_iff unifi_empty_iff watchguard_empty_iff palo_alto_empty_iff
        MerakiParser_parse_def UniFiParser_parse_def WatchGuardParser_parse_def
        PaloAltoParser_parse_def parse_loop_rejected del: parse_loop.simps)
  with hl show ?thesis by (rule conjI)
qed

lemma blank_line_stripped: "rstrip_nl blank_line = [CHR '' '', CHR '' '', CHR 0x09]"
  by (simp add: blank_line_def rstrip_nl_def NL_def)

lemma blank_text_lines: "handle_lines blank_text = [blank_line, [NL]]"
  by (simp add: handle_lines_def blank_text_def blank_line_def NL_def CR_def)

theorem empty_reason_witness:
  "blank_line \<in> set (handle_lines blank_text) \<and> CR \<notin> set blank_line \<and>
   rstrip_nl blank_line \<noteq> [] \<and> list_all is_space (rstrip_nl blank_line) \<and>
   MerakiParser_line blank_line = Inr (Rejected ''format-mismatch'') \<and>
   UniFiParser_line blank_line = Inr (Rejected ''format-mismatch'') \<and>
   WatchGuardParser_line blank_line = Inr (Rejected ''format-mismatch'') \<and>
   PaloAltoParser_line one_field blank_line = Inr (Rejected ''missing-prefix'') \<and>
   run_records (MerakiParser_parse [blank_line] new_ParseStats None ()) = [] \<and>
   run_stats (PaloAltoParser_parse one_field [blank_line] new_ParseStats None ()) =
     note_failure new_ParseStats ''missing-prefix''"
  using empty_reason [of blank_line blank_text one_field new_ParseStats None "()"]
  by (simp add: blank_line_stripped is_space_def blank_text_lines)

lemma crlf_text_lines: "handle_lines crlf_text = [[NL]]"
  by (simp add: handle_lines_def crlf_text_def NL_def CR_def)

text \<open>
  C9 as stated fails for the carriage return. A line with nothing in it, in a file whose
  lines end in carriage return and newline, reaches the parser as a newline alone: the
  carriage return is gone, and the line is tallied as \<open>empty\<close> by each of the four parsers,
  not as \<open>format-mismatch\<close> or \<open>missing-prefix\<close>.
\<close>

theorem crlf_blank_line_empty:
  "handle_lines crlf_text = [[NL]] \<and>
   rejected (run_stats (MerakiParser_parse (handle_lines crlf_text) new_ParseStats None ())) =
     [(''empty'', 1)] \<and>
   rejected (run_stats (UniFiParser_parse (handle_lines crlf_text) new_ParseStats None ())) =
     [(''empty'', 1)] \<and>
   rejected (run_stats (WatchGuardParser_parse (handle_lines crlf_text) new_ParseStats None ())) =
     [(''empty'', 1)] \<and>
   rejected (run_stats (PaloAltoParser_parse one_field (handle_lines crlf_text)
                          new_ParseStats None ())) =
     [(''empty'', 1)]"
  by (simp add: crlf_text_lines MerakiParser_parse_def UniFiParser_parse_def
      WatchGuardParser_parse_def PaloAltoParser_parse_def MerakiParser_line_def
      UniFiParser_line_def WatchGuardParser_line_def PaloAltoParser_line_def rstrip_nl_def
      run_stats_def note_failure_def new_ParseStats_def dict_get_def)

lemma scenario_line_parses: "MerakiParser_line scenario_line = Inr (Yielded scenario_record)"
  by code_simp

lemma scenario_line_nl_parses:
  "MerakiParser_line (scenario_line @ [NL]) = Inr (Yielded scenario_record)"
  by code_simp

text \<open>
  C6. The Meraki parser, run on the line of the scenario alone (with or without its
  newline), yields exactly one record, with \<open>event_type = ip_flow_end\<close>,
  \<open>category = network-flow\<close>, \<open>log_level = info\<close>, \<open>src = 10.10.0.102\<close>,
  \<open>dst = 35.153.85.208\<close> and \<open>protocol = 6\<close>; afterwards \<open>parsed\<close> and \<open>total_lines\<close> are
  one more than before and \<open>rejected\<close> is as it was.
\<close>

theorem meraki_scenario:
  "run_error (MerakiParser_parse [scenario_line] st cb pr) = None \<and>
   run_error (MerakiParser_parse [scenario_line @ [NL]] st cb pr) = None \<and>
   run_records (MerakiParser_parse [scenario_line] st cb pr) = [scenario_record] \<and>
   run_records (MerakiParser_parse [scenario_line @ [NL]] st cb pr) = [scenario_record] \<and>
   run_stats (MerakiParser_parse [scenario_line] st cb pr) =
     st\<lparr>total_lines := total_lines st + 1, parsed := parsed st + 1\<rparr> \<and>
   run_stats (MerakiParser_parse [scenario_line @ [NL]] st cb pr) =
     st\<lparr>total_lines := total_lines st + 1, parsed := parsed st + 1\<rparr> \<and>
   rejected (run_stats (MerakiParser_parse [scenario_line] st cb pr)) = rejected st \<and>
   map_of scenario_record ''event_type'' = Some (Some ''ip_flow_end'') \<and>
   map_of scenario_record ''category'' = Some (Some ''network-flow'') \<and>
   map_of scenario_record ''log_level'' = Some (Some ''info'') \<and>
   map_of scenario_record ''src'' = Some (Some ''10.10.0.102'') \<and>
   map_of scenario_record ''dst'' = Some (Some ''35.153.85.208'') \<and>
   map_of scenario_record ''protocol'' = Some (Some ''6'')"
  by (simp add: MerakiParser_parse_def scenario_line_parses scenario_line_nl_parses
      note_success_def Let_def run_error_def run_records_def run_stats_def)
    (simp add: scenario_record_def)

lemma cef_line_raises: "UniFiParser_line cef_line = Inl ValueError"
  by code_simp

lemma meraki_line_total: "\<exists>out. MerakiParser_line raw = Inr out"
  by (auto simp: MerakiParser_line_def Let_def split: option.splits)

lemma watchguard_line_total: "\<exists>out. WatchGuardParser_line raw = Inr out"
  by (auto simp: WatchGuardParser_line_def Let_def split: option.splits)

lemma palo_alto_line_total: "\<exists>out. PaloAltoParser_line csv raw = Inr out"
  by (auto simp: PaloAltoParser_line_def Let_def split: option.splits sum.splits)

text \<open>
  Where the treatment of a line never raises, a run never raises, counts every line once,
  and yields as many records as it counts successes.
\<close>

lemma note_success_fields:
  "total_lines (note_success st) = total_lines st + 1"
  "parsed (note_success st) = parsed st + 1"
  "rejected (note_success st) = rejected st"
  by (simp_all add: note_success_def)

lemma note_failure_fields:
  "total_lines (note_failure st reason) = total_lines st + 1"
  "parsed (note_failure st reason) = parsed st"
  by (simp_all add: note_failure_def Let_def)

lemma one_outcome_per_line:
  assumes "\<And>raw. \<exists>out. f raw = Inr out"
  shows "run_error (parse_loop f cb ls st recs pr) = None \<and>
         total_lines (run_stats (parse_loop f cb ls st recs pr)) = total_lines st + int (length ls) \<and>
         int (length (run_records (parse_loop f cb ls st recs pr))) - int (length recs) =
           parsed (run_stats (parse_loop f cb ls st recs pr)) - parsed st \<and>
         sum_rejected (run_stats (parse_loop f cb ls st recs pr)) - sum_rejected st =
           int (length ls) - (parsed (run_stats (parse_loop f cb ls st recs pr)) - parsed st)"
proof (induction ls arbitrary: st recs pr)
  case Nil
  show ?case by (simp add: run_error_def run_stats_def run_records_def)
next
  case (Cons raw ls)
  from assms obtain out where out: "f raw = Inr out" by blast
  let ?pr = "case cb of None \<Rightarrow> pr | Some g \<Rightarrow> g (length raw) pr"
  show ?case
  proof (cases out)
    case (Yielded r)
    with out Cons.IH [of "note_success st" "recs @ [r]" ?pr] show ?thesis
      by (simp add: Let_def sum_rejected_note_success note_success_fields)
  next
    case (Rejected reason)
    with out Cons.IH [of "note_failure st reason" recs ?pr] show ?thesis
      by (simp add: Let_def sum_rejected_note_failure note_failure_fields)
  qed
qed

text \<open>
  C5. The claim is that every line has one outcome and that \<open>parse\<close> never raises. The
  parsers of Meraki, WatchGuard and Palo Alto do so (\<open>one_outcome_per_line\<close> with the three
  lemmas before it). The UniFi parser raises \<^verbatim>\<open>ValueError\<close> on a security event whose
  severity is no integer: the run ends there, no record is yielded and nothing is tallied.
\<close>

theorem unifi_severity_raises:
  "UniFiParser_parse [cef_line] new_ParseStats None () =
     (Some ValueError, new_ParseStats, [], ())"
  by (simp add: UniFiParser_parse_def cef_line_raises)

text \<open>The statistics and the records of a run do not depend on the callback.\<close>

lemma callback_never_interferes:
  "run_error (parse_loop f cb ls st recs pr) = run_error (parse_loop f cb' ls st recs pr') \<and>
   run_stats (parse_loop f cb ls st recs pr) = run_stats (parse_loop f cb' ls st recs pr') \<and>
   run_records (parse_loop f cb ls st recs pr) = run_records (parse_loop f cb' ls st recs pr')"
proof (induction ls arbitrary: st recs pr pr')
  case Nil
  show ?case by (simp add: run_error_def run_stats_def run_records_def)
next
  case (Cons raw ls)
  show ?case
  proof (cases "f raw")
    case (Inl e)
    then show ?thesis by (simp add: run_error_def run_stats_def run_records_def Let_def)
  next
    case (Inr out)
    then show ?thesis using Cons.IH by (cases out) (simp_all add: Let_def)
  qed
qed

text \<open>The callback is called once for each line, in order, with \<^verbatim>\<open>len(raw_line)\<close>.\<close>

lemma callback_once_per_line:
  assumes "\<And>raw. \<exists>out. f raw = Inr out"
  shows "run_progress (parse_loop f (Some g) ls st recs pr) = fold (\<lambda>raw. g (length raw)) ls pr"
proof (induction ls arbitrary: st recs pr)
  case Nil
  show ?case by (simp add: run_progress_def)
next
  case (Cons raw ls)
  from assms obtain out where out: "f raw = Inr out" by blast
  then show ?case using Cons.IH by (cases out) (simp_all add: Let_def)
qed

text \<open>
  C7. The claim is that the callback is called once for each line with the byte length of
  the raw line, and never changes the result. It is called once for each line and never
  changes the result (the two lemmas above), but the amount is \<^verbatim>\<open>len(raw_line)\<close>, the
  number of characters of the decoded line: for a line with one character outside ASCII
  the callback receives 5 where the line has 6 bytes.
\<close>

theorem callback_receives_characters:
  "run_progress (MerakiParser_parse [accent_line] new_ParseStats (Some record_amount) []) = [5]
   \<and> utf8_length accent_line = 6"
  by code_simp

section \<open>The aggregations\<close>


lemma scenario_keys:
  "group_keys (get_column scenario_frame ''action'') = [CStr ''reset'', CStr ''allow'', CStr ''deny'']"
  by code_simp

lemma scenario_lens:
  "group_len (get_column scenario_frame ''action'') (CStr ''reset'') = 40"
  "group_len (get_column scenario_frame ''action'') (CStr ''allow'') = 100"
  "group_len (get_column scenario_frame ''action'') (CStr ''deny'') = 40"
  by code_simp+

lemma scenario_has: "has_column scenario_frame ''action''" "\<not> has_column scenario_frame ''bytes_total''"
  by (simp_all add: has_column_def scenario_frame_def)

lemma scenario_sorted:
  "top_sorted_groups scenario_frame ''action'' ''bytes_total'' =
     [\<lparr>g_key = CStr ''allow'', g_events = 100, g_bytes = None\<rparr>,
      \<lparr>g_key = CStr ''deny'', g_events = 40, g_bytes = None\<rparr>,
      \<lparr>g_key = CStr ''reset'', g_events = 40, g_bytes = None\<rparr>]"
  by (simp add: top_sorted_groups_def top_groups_def scenario_has scenario_keys scenario_lens
      events_key_def Let_def)


lemma cell_key_inj: "cell_key a = cell_key b \<Longrightarrow> a = b"
  by (cases a; cases b) auto

lemma distinct_top_groups: "distinct (map g_key (top_groups frame column bc))"
  by (simp add: top_groups_def Let_def comp_def group_keys_def)

lemma bytes_of_absent:
  "\<not> has_column frame bc \<Longrightarrow> g \<in> set (top_groups frame column bc) \<Longrightarrow> bytes_of g = 0"
  by (auto simp: top_groups_def Let_def bytes_of_def)

lemma strict_sorted_by_key:
  assumes "distinct (map f xs)"
  shows "sorted_wrt (\<lambda>a b. f a < f b) (sort_key f xs)"
proof -
  have "sorted (map f (sort_key f xs))" by (rule sorted_sort_key)
  moreover have "distinct (map f (sort_key f xs))"
    using assms by (simp add: distinct_map)
  ultimately have "sorted_wrt (<) (map f (sort_key f xs))"
    by (simp add: strict_sorted_iff)
  then show ?thesis by (simp add: sorted_wrt_map)
qed

lemma distinct_map_key:
  assumes "distinct (map k xs)" and "\<And>a b. f a = f b \<Longrightarrow> k a = k b"
  shows "distinct (map f xs)"
proof -
  have "inj_on f (set xs)"
  proof (rule inj_onI)
    fix a b assume ab: "a \<in> set xs" "b \<in> set xs" "f a = f b"
    from ab(3) have "k a = k b" by (rule assms(2))
    moreover from assms(1) have "inj_on k (set xs)" by (simp add: distinct_map)
    ultimately show "a = b" using ab(1,2) by (simp add: inj_on_def)
  qed
  moreover have "distinct xs" using assms(1) by (simp add: distinct_map)
  ultimately show ?thesis by (simp add: distinct_map)
qed

lemma top_sorted_bytes:
  "sorted_wrt top_before (sort_key events_bytes_key (top_groups frame column bc))"
proof -
  have "distinct (map events_bytes_key (top_groups frame column bc))"
    by (rule distinct_map_key [OF distinct_top_groups])
       (auto simp: events_bytes_key_def dest: cell_key_inj)
  from strict_sorted_by_key [OF this] show ?thesis
    by (rule sorted_wrt_mono_rel [rotated])
       (auto simp: top_before_def events_bytes_key_def less_prod_def)
qed

lemma top_sorted_events:
  assumes "\<not> has_column frame bc"
  shows "sorted_wrt top_before (sort_key events_key (top_groups frame column bc))"
proof -
  have "distinct (map events_key (top_groups frame column bc))"
    by (rule distinct_map_key [OF distinct_top_groups])
       (auto simp: events_key_def dest: cell_key_inj)
  from strict_sorted_by_key [OF this] show ?thesis
  proof (rule sorted_wrt_mono_rel [rotated])
    fix g h
    assume "g \<in> set (sort_key events_key (top_groups frame column bc))"
       and "h \<in> set (sort_key events_key (top_groups frame column bc))"
       and "events_key g < events_key h"
    then show "top_before g h"
      using bytes_of_absent [OF assms]
      by (auto simp: top_before_def events_key_def less_prod_def)
  qed
qed

lemma top_sorted_groups_sorted: "sorted_wrt top_before (top_sorted_groups frame column bc)"
  by (simp add: top_sorted_groups_def top_sorted_bytes top_sorted_events)

lemma set_top_sorted_groups:
  "set (top_sorted_groups frame column bc) = set (top_groups frame column bc)"
  by (simp add: top_sorted_groups_def)

lemma top_aggregation_head:
  "top_aggregation frame column bc limit = head limit (top_sorted_groups frame column bc)"
  by (simp add: top_aggregation_def top_sorted_groups_def Let_def)

lemma set_head: "head n xs = Inr ys \<Longrightarrow> set ys \<subseteq> set xs"
  by (auto simp: head_def split: if_splits dest: in_set_takeD)

lemma top_before_events: "top_before g h \<Longrightarrow> g_events h \<le> g_events g"
  by (auto simp: top_before_def)

lemma sorted_wrt_take_last:
  assumes "sorted_wrt P xs" and "x \<in> set xs" and "x \<notin> set (take n xs)" and "take n xs \<noteq> []"
  shows "P (last (take n xs)) x"
proof -
  have "xs = take n xs @ drop n xs" by simp
  with assms(2,3) have "x \<in> set (drop n xs)" by (metis Un_iff set_append)
  moreover have "sorted_wrt P (take n xs @ drop n xs)" using assms(1) by simp
  ultimately show ?thesis
    using assms(4) unfolding sorted_wrt_append by (meson last_in_set)
qed

lemma top_aggregation_take:
  "0 \<le> limit \<Longrightarrow> limit < 2 ^ 64 \<Longrightarrow>
   top_aggregation frame column bc limit = Inr (take (nat limit) (top_sorted_groups frame column bc))"
  by (simp add: top_aggregation_head head_def)

lemma top_order:
  "sorted_wrt top_before (take n (top_sorted_groups frame column bc))"
  "sorted_wrt (\<ge>) (map g_events (take n (top_sorted_groups frame column bc)))"
  "\<forall>g \<in> set (top_groups frame column bc).
     g \<notin> set (take n (top_sorted_groups frame column bc)) \<longrightarrow>
     take n (top_sorted_groups frame column bc) \<noteq> [] \<longrightarrow>
     g_events g \<le> g_events (last (take n (top_sorted_groups frame column bc)))"
proof -
  let ?s = "top_sorted_groups frame column bc"
  show s: "sorted_wrt top_before (take n ?s)"
    by (rule sorted_wrt_take [OF top_sorted_groups_sorted])
  from s have "sorted_wrt (\<lambda>a b. g_events a \<ge> g_events b) (take n ?s)"
    by (rule sorted_wrt_mono_rel [rotated]) (rule top_before_events)
  then show "sorted_wrt (\<ge>) (map g_events (take n ?s))"
    by (simp add: sorted_wrt_map)
  show "\<forall>g \<in> set (top_groups frame column bc).
           g \<notin> set (take n ?s) \<longrightarrow> take n ?s \<noteq> [] \<longrightarrow>
           g_events g \<le> g_events (last (take n ?s))"
    using sorted_wrt_take_last [OF top_sorted_groups_sorted, of _ frame column bc n]
    by (auto simp: set_top_sorted_groups dest: top_before_events)
qed

lemma top_counts_present:
  "has_column frame column \<Longrightarrow> top_aggregation frame column bc limit = Inr kept \<Longrightarrow>
   top_rows (collect_top_counts sd frame column bc limit t) = map (top_row sd column) kept \<and>
   (\<exists>sec. collect_top_counts sd frame column bc limit t = Inr (Some sec))"
  by (simp add: collect_top_counts_def top_rows_def)

lemma top_counts_overflow:
  "has_column frame column \<Longrightarrow> 2 ^ 64 \<le> limit \<Longrightarrow>
   collect_top_counts sd frame column bc limit t = Inl OverflowError"
  by (simp add: collect_top_counts_def top_aggregation_head head_def)

lemma top_counts_negative:
  "has_column frame column \<Longrightarrow> limit < 0 \<Longrightarrow>
   top_rows (collect_top_counts sd frame column bc limit t) =
     map (top_row sd column)
       (take (length (top_sorted_groups frame column bc) - nat (- limit))
          (top_sorted_groups frame column bc))"
  by (simp add: collect_top_counts_def top_rows_def top_aggregation_head head_def)

lemma scenario_top2:
  "top_aggregation scenario_frame ''action'' ''bytes_total'' 2 =
     Inr [\<lparr>g_key = CStr ''allow'', g_events = 100, g_bytes = None\<rparr>,
          \<lparr>g_key = CStr ''deny'', g_events = 40, g_bytes = None\<rparr>]"
  by (simp add: top_aggregation_head scenario_sorted head_def)

lemma scenario_rows:
  "top_rows (collect_top_counts sd scenario_frame ''action'' ''bytes_total'' 2 t) =
     [[(''action'', VStr ''allow''), (''events'', VInt 100)],
      [(''action'', VStr ''deny''), (''events'', VInt 40)]]"
  using top_counts_present [OF scenario_has(1) scenario_top2, of sd t]
  by (simp add: top_row_def key_text_def falsy_def str_cell_def)

lemma large_frame_sum:
  "group_sum (get_column large_frame ''action'') (get_column large_frame ''bytes_total'')
     (CStr ''allow'') = - 9223372036854775808"
  by (simp add: group_sum_def wrap_int64_def get_column_def large_frame_def cell_int_def)

lemma large_frame_rows:
  "top_rows (collect_top_counts no_datetime large_frame ''action'' ''bytes_total'' 5 None) =
     [[(''action'', VStr ''allow''), (''events'', VInt 2),
       (''bytes'', VInt (- 9223372036854775808)), (''bytes_formatted'', VStr EM_DASH)]]"
  by code_simp

text \<open>
  C2 (as amended). For every frame with the grouping column and every limit \<open>N\<close> from 0
  up to \<open>2^64 - 1\<close>, \<^verbatim>\<open>collect_top_counts\<close> returns a section whose rows are the first
  groups, at most \<open>N\<close>, in the order: more events first, then the larger sum of bytes when
  the bytes column is there, then the smaller key. The sum of bytes is the one polars
  computes, which wraps around at \<open>2^63\<close>: two rows of \<open>2^63 - 1\<close> and 1 byte add up to
  \<open>-2^63\<close>. The event counts do not increase along the rows, and no group left out has
  more events than the last row. A limit from \<open>2^64\<close> on raises \<^verbatim>\<open>OverflowError\<close>, and
  a limit below 0 gives all groups but the last \<open>-N\<close>. Over
  the counts allow 100, deny 40, reset 40 with limit 2 the rows are allow, then deny; reset
  comes after deny in the full order.
\<close>

theorem top_counts_order:
  "(has_column frame column \<and> 0 \<le> limit \<and> limit < 2 ^ 64 \<longrightarrow>
      top_aggregation frame column bc limit =
        Inr (take (nat limit) (top_sorted_groups frame column bc)) \<and>
      (\<exists>sec. collect_top_counts sd frame column bc limit t = Inr (Some sec)) \<and>
      top_rows (collect_top_counts sd frame column bc limit t) =
        map (top_row sd column) (take (nat limit) (top_sorted_groups frame column bc)) \<and>
      length (top_rows (collect_top_counts sd frame column bc limit t)) \<le> nat limit \<and>
      sorted_wrt top_before (take (nat limit) (top_sorted_groups frame column bc)) \<and>
      sorted_wrt (\<ge>) (map g_events (take (nat limit) (top_sorted_groups frame column bc))) \<and>
      (\<forall>g \<in> set (top_groups frame column bc).
          g \<notin> set (take (nat limit) (top_sorted_groups frame column bc)) \<longrightarrow>
          take (nat limit) (top_sorted_groups frame column bc) \<noteq> [] \<longrightarrow>
          g_events g \<le> g_events (last (take (nat limit) (top_sorted_groups frame column bc))))) \<and>
   (has_column frame column \<and> 2 ^ 64 \<le> limit \<longrightarrow>
      collect_top_counts sd frame column bc limit t = Inl OverflowError) \<and>
   (has_column frame column \<and> limit < 0 \<longrightarrow>
      top_rows (collect_top_counts sd frame column bc limit t) =
        map (top_row sd column)
          (take (length (top_sorted_groups frame column bc) - nat (- limit))
             (top_sorted_groups frame column bc))) \<and>
   sorted_wrt top_before (top_sorted_groups frame column bc) \<and>
   set (top_sorted_groups frame column bc) = set (top_groups frame column bc) \<and>
   top_rows (collect_top_counts sd scenario_frame ''action'' ''bytes_total'' 2 t) =
     [[(''action'', VStr ''allow''), (''events'', VInt 100)],
      [(''action'', VStr ''deny''), (''events'', VInt 40)]] \<and>
   map g_key (top_sorted_groups scenario_frame ''action'' ''bytes_total'') =
     [CStr ''allow'', CStr ''deny'', CStr ''reset''] \<and>
   top_rows (collect_top_counts no_datetime large_frame ''action'' ''bytes_total'' 5 None) =
     [[(''action'', VStr ''allow''), (''events'', VInt 2),
       (''bytes'', VInt (- 9223372036854775808)), (''bytes_formatted'', VStr EM_DASH)]]"
proof -
  have "top_aggregation frame column bc limit =
          Inr (take (nat limit) (top_sorted_groups frame column bc)) \<and>
        (\<exists>sec. collect_top_counts sd frame column bc limit t = Inr (Some sec)) \<and>
        top_rows (collect_top_counts sd frame column bc limit t) =
          map (top_row sd column) (take (nat limit) (top_sorted_groups frame column bc)) \<and>
        length (top_rows (collect_top_counts sd frame column bc limit t)) \<le> nat limit"
    if "has_column frame column" "0 \<le> limit" "limit < 2 ^ 64"
    using top_counts_present [where sd = sd and t = t and bc = bc,
        OF that(1) top_aggregation_take [OF that(2,3)]]
      top_aggregation_take [OF that(2,3), of frame column bc]
    by simp
  then show ?thesis
    using top_order [where n = "nat limit" and frame = frame and column = column and bc = bc]
      top_counts_overflow [where frame = frame and column = column and limit = limit
        and sd = sd and bc = bc and t = t]
      top_counts_negative [where frame = frame and column = column and limit = limit
        and sd = sd and bc = bc and t = t]
    by (simp add: scenario_rows scenario_sorted top_sorted_groups_sorted set_top_sorted_groups
        large_frame_rows)
qed

theorem top_counts_order_witness:
  "has_column scenario_frame ''action'' \<and> (0::int) \<le> 2 \<and> (2::int) < 2 ^ 64 \<and>
   top_aggregation scenario_frame ''action'' ''bytes_total'' 2 =
     Inr (take (nat 2) (top_sorted_groups scenario_frame ''action'' ''bytes_total'')) \<and>
   length (top_rows (collect_top_counts no_datetime scenario_frame ''action'' ''bytes_total'' 2
                       None)) \<le> nat 2 \<and>
   sorted_wrt top_before (take (nat 2) (top_sorted_groups scenario_frame ''action'' ''bytes_total''))"
proof -
  have h: "has_column scenario_frame ''action'' \<and> (0::int) \<le> 2 \<and> (2::int) < 2 ^ 64"
    by (simp add: scenario_has)
  note c = top_counts_order [of scenario_frame "''action''" 2 "''bytes_total''" no_datetime None,
      THEN conjunct1, THEN mp, OF h]
  from h c [THEN conjunct1] c [THEN conjunct2, THEN conjunct2, THEN conjunct2, THEN conjunct1]
    c [THEN conjunct2, THEN conjunct2, THEN conjunct2, THEN conjunct2, THEN conjunct1]
  show ?thesis by simp
qed

lemma scenario_all_but_last:
  "top_aggregation scenario_frame ''action'' ''bytes_total'' (- 1) =
     Inr [\<lparr>g_key = CStr ''allow'', g_events = 100, g_bytes = None\<rparr>,
          \<lparr>g_key = CStr ''deny'', g_events = 40, g_bytes = None\<rparr>]"
  by (simp add: top_aggregation_head scenario_sorted head_def)

text \<open>
  C2 as stated, for every limit, fails: with limit \<open>-1\<close> polars drops the last group and
  returns the other two, which is more than \<open>-1\<close> rows.
\<close>

theorem top_counts_negative_limit:
  "top_rows (collect_top_counts no_datetime scenario_frame ''action'' ''bytes_total'' (- 1) None) =
     [[(''action'', VStr ''allow''), (''events'', VInt 100)],
      [(''action'', VStr ''deny''), (''events'', VInt 40)]] \<and>
   \<not> int (length (top_rows (collect_top_counts no_datetime scenario_frame ''action''
                             ''bytes_total'' (- 1) None))) \<le> - 1"
  using top_counts_present [OF scenario_has(1) scenario_all_but_last, of no_datetime None]
  by (simp add: top_row_def key_text_def falsy_def str_cell_def)

text \<open>
  C8. The claim is that \<^verbatim>\<open>collect_top_counts\<close> returns an absent result when the column
  is missing or the table is empty. For a missing column it does
  (\<open>top_counts_missing_column\<close> below). For a table with the column and no rows it returns
  a section with no rows: the function has no check of the height, unlike
  \<^verbatim>\<open>collect_noise_candidates\<close> and \<^verbatim>\<open>collect_trend\<close>.
\<close>

theorem top_counts_empty_table:
  "height empty_frame = 0 \<and> has_column empty_frame ''action'' \<and>
   collect_top_counts sd empty_frame ''action'' ''bytes_total'' 5 None =
     Inr (Some \<lparr>title = ''Top 5 by action'', columns = [''Action'', ''Events''], rows = []\<rparr>)"
  by code_simp

lemma top_counts_missing_column:
  "\<not> has_column frame column \<Longrightarrow> collect_top_counts sd frame column bc limit t = Inr None"
  by (simp add: collect_top_counts_def)

lemma distinct_map_sort_key: "distinct (map f (sort_key k xs)) = distinct (map f xs)"
  by (simp add: distinct_map)

lemma distinct_trend: "distinct (map fst (trend_of frame))"
  by (simp add: trend_of_def Let_def distinct_map_sort_key comp_def group_keys_def)

lemma set_trend:
  "fst ` set (trend_of frame) = set (get_column frame ''minute_bucket'') - {CNull}"
  by (auto simp: trend_of_def Let_def group_keys_def image_iff)

lemma group_len_not_null:
  "k \<noteq> CNull \<Longrightarrow> group_len (filter (\<lambda>c. c \<noteq> CNull) col) k = group_len col k"
proof -
  assume "k \<noteq> CNull"
  then have "(\<lambda>c. c \<noteq> CNull \<and> c = k) = (\<lambda>c. c = k)" by auto
  then show ?thesis by (simp add: group_len_def)
qed

lemma trend_counts:
  "r \<in> set (trend_of frame) \<Longrightarrow> snd r = group_len (get_column frame ''minute_bucket'') (fst r)"
  by (auto simp: trend_of_def Let_def group_keys_def group_len_not_null)

lemma trend_sorted: "sorted_wrt (\<lambda>a b. cell_key (fst a) < cell_key (fst b)) (trend_of frame)"
proof -
  let ?col = "filter (\<lambda>c. c \<noteq> CNull) (get_column frame ''minute_bucket'')"
  let ?gs = "map (\<lambda>k. (k, group_len ?col k)) (group_keys ?col)"
  have "distinct (map fst ?gs)" by (simp add: comp_def group_keys_def)
  then have "distinct (map (cell_key \<circ> fst) ?gs)"
    by (simp add: distinct_map inj_on_def comp_def) (auto dest: cell_key_inj)
  from strict_sorted_by_key [OF this] show ?thesis
    by (simp add: trend_of_def Let_def)
qed

lemma trend_times:
  assumes "datetime_column (get_column frame ''minute_bucket'')"
  shows "\<forall>r \<in> set (trend_of frame). \<exists>t. fst r = CTime t"
proof
  fix r assume "r \<in> set (trend_of frame)"
  then have "fst r \<in> set (get_column frame ''minute_bucket'') - {CNull}"
    using set_trend [of frame] by blast
  with assms show "\<exists>t. fst r = CTime t"
    by (cases "fst r") (auto simp: datetime_column_def list_all_iff split: cell.splits)
qed

lemma trend_sorted_times:
  assumes "datetime_column (get_column frame ''minute_bucket'')"
  shows "sorted_wrt (<) (map (bucket_time \<circ> fst) (trend_of frame))"
proof -
  have "sorted_wrt (\<lambda>a b. bucket_time (fst a) < bucket_time (fst b)) (trend_of frame)"
    using trend_sorted
  proof (rule sorted_wrt_mono_rel [rotated])
    fix a b assume "a \<in> set (trend_of frame)" "b \<in> set (trend_of frame)"
      and "cell_key (fst a) < cell_key (fst b)"
    moreover from this trend_times [OF assms]
    obtain s t where "fst a = CTime s" "fst b = CTime t" by blast
    ultimately show "bucket_time (fst a) < bucket_time (fst b)"
      by (simp add: bucket_time_def less_prod_def)
  qed
  then show ?thesis by (simp add: sorted_wrt_map comp_def)
qed

lemma collect_rows_times:
  "\<forall>r \<in> set rs. \<exists>t. fst r = CTime t \<Longrightarrow>
   collect_rows (trend_row sf) rs = Inr (map (trend_line sf) rs)"
  by (induction rs) (auto simp: trend_row_def trend_line_def bucket_time_def)

lemma slice_take: "0 \<le> n \<Longrightarrow> slice_to n xs = take (nat n) xs"
  by (simp add: slice_to_def)

lemma trend_absent_missing:
  "\<not> has_column frame ''minute_bucket'' \<Longrightarrow> collect_trend sf frame limit = Inr None"
  by (simp add: collect_trend_def)

lemma trend_empty_iff:
  "(trend_of frame = []) = (\<forall>c \<in> set (get_column frame ''minute_bucket''). c = CNull)"
proof -
  have "(trend_of frame = []) = (fst ` set (trend_of frame) = {})" by simp
  then show ?thesis unfolding set_trend by auto
qed

lemma trend_absent_no_bucket:
  "\<forall>c \<in> set (get_column frame ''minute_bucket''). c = CNull \<Longrightarrow>
   collect_trend sf frame limit = Inr None"
  using trend_empty_iff [of frame] by (simp add: collect_trend_def Let_def)

lemma trend_present:
  assumes "has_column frame ''minute_bucket''"
    and "datetime_column (get_column frame ''minute_bucket'')"
    and "\<exists>c \<in> set (get_column frame ''minute_bucket''). c \<noteq> CNull"
    and "0 \<le> limit"
  shows "collect_trend sf frame limit =
           Inr (Some \<lparr>title = ''Volume per minute'', columns = [''Minute'', ''Events''],
                      rows = map (trend_line sf) (take (nat limit) (trend_of frame))\<rparr>)"
proof -
  from assms(3) have "trend_of frame \<noteq> []" using trend_empty_iff [of frame] by blast
  then show ?thesis
    using assms(1,4) collect_rows_times [OF trend_times [OF assms(2)], of sf]
    by (simp add: collect_trend_def Let_def slice_take take_map)
qed

text \<open>
  C4 (as amended). \<^verbatim>\<open>collect_trend\<close> returns an absent result when the frame has no
  column \<^verbatim>\<open>minute_bucket\<close> or the column holds no bucket that is not null. Otherwise, for
  a column of datetimes and every limit \<open>N \<ge> 0\<close>, it returns the first \<open>N\<close> elements of the
  full ascending sequence of the distinct buckets, each with the number of its rows: the
  buckets returned increase strictly in time and are a prefix, of length at most \<open>N\<close>, of
  that sequence (the earliest buckets, not the busiest).
\<close>

theorem trend_prefix:
  "(\<not> has_column frame ''minute_bucket'' \<longrightarrow> collect_trend sf frame limit = Inr None) \<and>
   ((\<forall>c \<in> set (get_column frame ''minute_bucket''). c = CNull) \<longrightarrow>
      collect_trend sf frame limit = Inr None) \<and>
   (has_column frame ''minute_bucket'' \<and> datetime_column (get_column frame ''minute_bucket'') \<and>
    (\<exists>c \<in> set (get_column frame ''minute_bucket''). c \<noteq> CNull) \<and> 0 \<le> limit \<longrightarrow>
      collect_trend sf frame limit =
        Inr (Some \<lparr>title = ''Volume per minute'', columns = [''Minute'', ''Events''],
                   rows = map (trend_line sf) (take (nat limit) (trend_of frame))\<rparr>) \<and>
      length (trend_rows (collect_trend sf frame limit)) \<le> nat limit \<and>
      sorted_wrt (<) (map (bucket_time \<circ> fst) (trend_of frame))) \<and>
   distinct (map fst (trend_of frame)) \<and>
   fst ` set (trend_of frame) = set (get_column frame ''minute_bucket'') - {CNull} \<and>
   (\<forall>r \<in> set (trend_of frame).
      snd r = group_len (get_column frame ''minute_bucket'') (fst r))"
proof -
  have "length (trend_rows (collect_trend sf frame limit)) \<le> nat limit"
    if "has_column frame ''minute_bucket''"
       "datetime_column (get_column frame ''minute_bucket'')"
       "\<exists>c \<in> set (get_column frame ''minute_bucket''). c \<noteq> CNull" "0 \<le> limit"
    using trend_present [OF that, of sf] by (simp add: trend_rows_def)
  then show ?thesis
    using trend_absent_missing trend_absent_no_bucket trend_present trend_sorted_times
      distinct_trend set_trend trend_counts
    by blast
qed

lemma trend_frame_facts:
  "has_column trend_frame ''minute_bucket''"
  "datetime_column (get_column trend_frame ''minute_bucket'')"
  "\<exists>c \<in> set (get_column trend_frame ''minute_bucket''). c \<noteq> CNull"
  by (simp_all add: trend_frame_def has_column_def datetime_column_def get_column_def)

theorem trend_prefix_witness:
  "has_column trend_frame ''minute_bucket'' \<and>
   datetime_column (get_column trend_frame ''minute_bucket'') \<and>
   (\<exists>c \<in> set (get_column trend_frame ''minute_bucket''). c \<noteq> CNull) \<and> (0::int) \<le> 2 \<and>
   collect_trend minute_text trend_frame 2 =
     Inr (Some \<lparr>title = ''Volume per minute'', columns = [''Minute'', ''Events''],
                rows = map (trend_line minute_text) (take (nat 2) (trend_of trend_frame))\<rparr>) \<and>
   \<not> has_column empty_frame ''minute_bucket'' \<and>
   collect_trend minute_text empty_frame 2 = Inr None \<and>
   get_column null_bucket_frame ''minute_bucket'' = [CNull, CNull] \<and>
   collect_trend minute_text null_bucket_frame 2 = Inr None"
proof -
  have g: "get_column null_bucket_frame ''minute_bucket'' = [CNull, CNull]"
    by (simp add: get_column_def null_bucket_frame_def)
  have h: "has_column trend_frame ''minute_bucket'' \<and>
           datetime_column (get_column trend_frame ''minute_bucket'') \<and>
           (\<exists>c \<in> set (get_column trend_frame ''minute_bucket''). c \<noteq> CNull) \<and> (0::int) \<le> 2"
    by (simp add: trend_frame_facts)
  have m: "\<not> has_column empty_frame ''minute_bucket''"
    by (simp add: has_column_def empty_frame_def)
  have n: "\<forall>c \<in> set (get_column null_bucket_frame ''minute_bucket''). c = CNull"
    by (simp add: g)
  have "collect_trend minute_text trend_frame 2 =
          Inr (Some \<lparr>title = ''Volume per minute'', columns = [''Minute'', ''Events''],
                     rows = map (trend_line minute_text) (take (nat 2) (trend_of trend_frame))\<rparr>)"
    by (rule trend_prefix [of trend_frame minute_text 2, THEN conjunct2, THEN conjunct2,
          THEN conjunct1, rule_format, OF h, THEN conjunct1])
  moreover have "collect_trend minute_text empty_frame 2 = Inr None"
    by (rule trend_prefix [of empty_frame minute_text 2, THEN conjunct1, rule_format, OF m])
  moreover have "collect_trend minute_text null_bucket_frame 2 = Inr None"
    by (rule trend_prefix [of null_bucket_frame minute_text 2, THEN conjunct2, THEN conjunct1,
          THEN mp, OF n])
  ultimately show ?thesis using h m g by simp
qed

text \<open>
  C4 as stated, for every limit, fails: with limit \<open>-1\<close> the slice \<^verbatim>\<open>rows[:-1]\<close> drops
  the last bucket and keeps the other two, which is more than \<open>-1\<close> rows.
\<close>

theorem trend_negative_limit:
  "trend_rows (collect_trend minute_text trend_frame (- 1)) =
     [[(''minute'', VStr ''120''), (''events'', VInt 1)],
      [(''minute'', VStr ''300''), (''events'', VInt 2)]] \<and>
   map fst (trend_of trend_frame) = [CTime 120, CTime 300, CTime 420] \<and>
   \<not> int (length (trend_rows (collect_trend minute_text trend_frame (- 1)))) \<le> - 1"
  by code_simp

lemma top_groups_keys:
  "g_key ` set (top_groups frame column bc) = set (get_column frame column)"
  by (auto simp: top_groups_def Let_def group_keys_def image_iff)

lemma top_groups_events:
  "\<forall>g \<in> set (top_groups frame column bc). g_events g = group_len (get_column frame column) (g_key g)"
  by (auto simp: top_groups_def Let_def)

lemma noise_groups_keys:
  "n_key ` set (noise_groups frame column) = set (get_column frame column)"
  by (auto simp: noise_groups_def Let_def group_keys_def image_iff)

lemma noise_groups_events:
  "\<forall>g \<in> set (noise_groups frame column).
     n_events g = group_len (get_column frame column) (n_key g) \<and>
     n_share g = share_of (n_events g) (height frame)"
  by (auto simp: noise_groups_def Let_def)

lemma distinct_noise_groups: "distinct (map n_key (noise_groups frame column))"
  by (simp add: noise_groups_def Let_def comp_def group_keys_def)

lemma top_aggregation_subset:
  "top_aggregation frame column bc limit = Inr kept \<Longrightarrow>
   set kept \<subseteq> set (top_groups frame column bc)"
  using set_head [of limit "top_sorted_groups frame column bc" kept]
  by (simp add: top_aggregation_head set_top_sorted_groups)

lemma set_noise_aggregation:
  "set (noise_aggregation frame column threshold) =
     {g \<in> set (noise_groups frame column).
        cutoff_of (height frame) threshold \<le> to_float (int (n_events g))}"
  by (auto simp: noise_aggregation_def Let_def)

lemma top_rows_some:
  "collect_top_counts sd frame column bc limit t = Inr (Some sec) \<Longrightarrow>
   \<exists>kept. top_aggregation frame column bc limit = Inr kept \<and>
          rows sec = map (top_row sd column) kept"
  by (auto simp: collect_top_counts_def split: if_splits sum.splits)

lemma noise_rows_some:
  "collect_noise_candidates sd frame column threshold = Some sec \<Longrightarrow>
   rows sec = map (noise_row sd column) (noise_aggregation frame column threshold) \<and>
   rows sec \<noteq> [] \<and> 0 < threshold \<and> 0 < height frame"
  by (auto simp: collect_noise_candidates_def Let_def split: if_splits)

lemma top_row_key:
  "hd (top_row sd column g) =
     (column, VStr (if falsy (g_key g) then ''<missing>'' else str_cell sd (g_key g)))"
  by (simp add: top_row_def key_text_def)

lemma noise_row_key:
  "hd (noise_row sd column g) =
     (column, VStr (if falsy (n_key g) then ''<missing>'' else str_cell sd (n_key g)))"
  by (simp add: noise_row_def key_text_def)

section \<open>Floating point at the numbers of the examples\<close>

lemma bitlen_numeral [simp]:
  "bitlen 0 = 0"
  "bitlen (Suc 0) = Suc 0"
  "bitlen (numeral k) = Suc (bitlen (numeral k div 2))"
  by (subst bitlen.simps, simp)+

declare bitlen.simps [simp del]

lemma floor_rat_numeral [simp]:
  "\<lfloor>(numeral a :: rat) / numeral b\<rfloor> = numeral a div numeral b"
  using floor_divide_of_int_eq [of "numeral a" "numeral b", where ?'a = rat] by simp

lemma ceiling_rat_numeral [simp]:
  "\<lceil>(numeral a :: rat) / numeral b\<rceil> = - (- numeral a div numeral b)"
  using ceiling_divide_eq_div [of "numeral a" "numeral b", where ?'a = rat] by simp

lemmas rd_eval = rd_def ilog2_def pow2_def round_half_even_def Let_def


lemma rd_ints: "rd 100 = 100" "rd 29 = 29" "rd 71 = 71"
  by (simp_all add: rd_eval)





lemma rd_small: "rd 1 = 1" "rd 2 = 2" "rd 3 = 3" "rd 6 = 6" "rd (1 / 2) = 1 / 2" "rd 50 = 50"
  by (simp_all add: rd_eval)

lemma cutoff_50: "cutoff_of 6 50 = 3"
  by (simp add: cutoff_of_def to_float_def rd_small)

lemma share_half: "share_of 3 6 = 50"
  by (simp add: share_of_def to_float_def rd_small)

lemma to_float_small: "to_float 1 = 1" "to_float 2 = 2" "to_float 3 = 3" "to_float 29 = 29" "to_float 71 = 71"
  by (simp_all add: to_float_def rd_small rd_ints)

section \<open>The error of rounding\<close>














section \<open>Noise candidates\<close>











lemma headings: "column_heading ''rule'' = ''Rule''" "column_heading ''user'' = ''User''"
  by code_simp+



section \<open>The sentinel\<close>

lemma null_frame_groups:
  "group_keys (get_column null_frame ''user'') = [CStr [], CStr ''bob'', CNull]"
  "group_len (get_column null_frame ''user'') (CStr []) = 1"
  "group_len (get_column null_frame ''user'') (CStr ''bob'') = 2"
  "group_len (get_column null_frame ''user'') CNull = 3"
  "height null_frame = 6"
  "has_column null_frame ''user''"
  by code_simp+

lemma null_frame_top:
  "collect_top_counts no_datetime null_frame ''user'' ''bytes_total'' 5 None =
     Inr (Some null_section)"
  by code_simp

lemma null_frame_noise_aggregation:
  "noise_aggregation null_frame ''user'' 50 = [\<lparr>n_key = CNull, n_events = 3, n_share = 50\<rparr>]"
  by (simp add: noise_aggregation_def noise_groups_def null_frame_groups cutoff_50 share_half
      to_float_small Let_def)

lemma null_frame_noise:
  "collect_noise_candidates no_datetime null_frame ''user'' 50 = Some null_noise_section"
  by (simp add: collect_noise_candidates_def null_frame_groups null_frame_noise_aggregation
      noise_row_def key_text_def falsy_def headings null_noise_section_def)

text \<open>
  C10. The rows of \<^verbatim>\<open>collect_top_counts\<close> and \<^verbatim>\<open>collect_noise_candidates\<close> are made
  from the groups of the aggregation, and the first cell of a row, the one of the grouping
  column, is the text \<open><missing>\<close> when the key of the group is null or another falsy value
  such as the empty string, and the text of the key otherwise. The groups have distinct
  keys, one for each value of the column, null included, and the count of a group is the
  number of rows with its key: null and the empty string are two groups that are shown
  alike.
\<close>

theorem missing_sentinel:
  "(collect_top_counts sd frame column bc limit t = Inr (Some sec) \<longrightarrow>
      (\<exists>kept. top_aggregation frame column bc limit = Inr kept \<and>
              rows sec = map (top_row sd column) kept)) \<and>
   (collect_noise_candidates sd frame column threshold = Some sec' \<longrightarrow>
      rows sec' = map (noise_row sd column) (noise_aggregation frame column threshold)) \<and>
   hd (top_row sd column g) =
     (column, VStr (if falsy (g_key g) then ''<missing>'' else str_cell sd (g_key g))) \<and>
   hd (noise_row sd column n) =
     (column, VStr (if falsy (n_key n) then ''<missing>'' else str_cell sd (n_key n))) \<and>
   falsy CNull \<and> falsy (CStr []) \<and> CNull \<noteq> CStr [] \<and>
   (top_aggregation frame column bc limit = Inr groups \<longrightarrow>
      set groups \<subseteq> set (top_groups frame column bc)) \<and>
   set (noise_aggregation frame column threshold) \<subseteq> set (noise_groups frame column) \<and>
   distinct (map g_key (top_groups frame column bc)) \<and>
   distinct (map n_key (noise_groups frame column)) \<and>
   g_key ` set (top_groups frame column bc) = set (get_column frame column) \<and>
   n_key ` set (noise_groups frame column) = set (get_column frame column) \<and>
   (\<forall>g \<in> set (top_groups frame column bc).
      g_events g = group_len (get_column frame column) (g_key g)) \<and>
   (\<forall>n \<in> set (noise_groups frame column).
      n_events n = group_len (get_column frame column) (n_key n))"
proof -
  have "set (noise_aggregation frame column threshold) \<subseteq> set (noise_groups frame column)"
    unfolding set_noise_aggregation by blast
  moreover have "falsy CNull \<and> falsy (CStr []) \<and> CNull \<noteq> CStr []"
    by (simp add: falsy_def)
  ultimately show ?thesis
    using top_rows_some [of sd frame column bc limit t sec]
      noise_rows_some [of sd frame column threshold sec']
      top_row_key [of sd column g] noise_row_key [of sd column n]
      top_aggregation_subset [of frame column bc limit groups]
      distinct_top_groups [of frame column bc] distinct_noise_groups [of frame column]
      top_groups_keys [of frame column bc] noise_groups_keys [of frame column]
      top_groups_events [of frame column bc] noise_groups_events [of frame column]
    by blast
qed

lemma null_frame_aggregation:
  "top_aggregation null_frame ''user'' ''bytes_total'' 5 =
     Inr [\<lparr>g_key = CNull, g_events = 3, g_bytes = None\<rparr>,
          \<lparr>g_key = CStr ''bob'', g_events = 2, g_bytes = None\<rparr>,
          \<lparr>g_key = CStr [], g_events = 1, g_bytes = None\<rparr>]"
  by code_simp

theorem missing_sentinel_witness:
  "collect_top_counts no_datetime null_frame ''user'' ''bytes_total'' 5 None =
     Inr (Some null_section) \<and>
   (\<exists>kept. top_aggregation null_frame ''user'' ''bytes_total'' 5 = Inr kept \<and>
           rows null_section = map (top_row no_datetime ''user'') kept) \<and>
   collect_noise_candidates no_datetime null_frame ''user'' 50 = Some null_noise_section \<and>
   rows null_noise_section =
     map (noise_row no_datetime ''user'') (noise_aggregation null_frame ''user'' 50) \<and>
   map (snd \<circ> hd) (rows null_section) = [VStr ''<missing>'', VStr ''bob'', VStr ''<missing>'']"
proof -
  note m = missing_sentinel [of no_datetime null_frame "''user''" "''bytes_total''" 5 None
      null_section 50 null_noise_section]
  have "\<exists>kept. top_aggregation null_frame ''user'' ''bytes_total'' 5 = Inr kept \<and>
          rows null_section = map (top_row no_datetime ''user'') kept"
    by (rule m [THEN conjunct1, THEN mp, OF null_frame_top])
  moreover have "rows null_noise_section =
          map (noise_row no_datetime ''user'') (noise_aggregation null_frame ''user'' 50)"
    by (rule m [THEN conjunct2, THEN conjunct1, THEN mp, OF null_frame_noise])
  moreover have "map (snd \<circ> hd) (rows null_section) =
          [VStr ''<missing>'', VStr ''bob'', VStr ''<missing>'']"
    by (simp add: null_section_def)
  ultimately show ?thesis using null_frame_top null_frame_noise by blast
qed

end
